theory Spec2Isabelle
  imports Main
begin

section \<open>Python values and strings\<close>

text \<open>
  The grader of \<^verbatim>\<open>utils/grader.py\<close> and the runners of \<^verbatim>\<open>judge/\<close> are embedded as
  HOL functions. A Python \<^verbatim>\<open>str\<close> is a \<^typ>\<open>string\<close> whose characters are the code
  points below 256; an exception is a value of \<open>exn\<close>, and a function that may raise
  returns \<open>exn + 'a\<close> with \<open>Inl\<close> for the exception.
\<close>

datatype exn =
    UnicodeDecodeError
  | UnicodeEncodeError
  | TimeoutExpired
  | ValueError
  | IndexError
  | KeyError

text \<open>Sequencing of steps that may raise: the first exception ends the computation.\<close>

fun and_then :: "exn + 'a \<Rightarrow> ('a \<Rightarrow> exn + 'b) \<Rightarrow> exn + 'b" where
  "and_then (Inl e) f = Inl e"
| "and_then (Inr x) f = f x"

text \<open>A comprehension or loop whose body may raise, over the items in order.\<close>

fun map_exn :: "('a \<Rightarrow> exn + 'b) \<Rightarrow> 'a list \<Rightarrow> exn + 'b list" where
  "map_exn f [] = Inr []"
| "map_exn f (x # xs) =
     and_then (f x) (\<lambda>y. and_then (map_exn f xs) (\<lambda>ys. Inr (y # ys)))"

text \<open>
  \<^verbatim>\<open>str.isspace\<close> on one character, for the code points below 256: tab, line feed,
  vertical tab, form feed, carriage return, the separators 0x1C to 0x1F, space, NEL
  (0x85) and the no-break space (0xA0).
\<close>

definition isspace :: "char \<Rightarrow> bool" where
  "isspace c = (c \<in> set [CHR 0x09, CHR 0x0A, CHR 0x0B, CHR 0x0C, CHR 0x0D,
                           CHR 0x1C, CHR 0x1D, CHR 0x1E, CHR 0x1F, CHR 0x20,
                           CHR 0x85, CHR 0xA0])"

text \<open>\<^verbatim>\<open>s.strip()\<close>: leading and trailing whitespace removed.\<close>

definition strip :: "string \<Rightarrow> string" where
  "strip s = rev (dropWhile isspace (rev (dropWhile isspace s)))"

text \<open>
  \<^verbatim>\<open>s.lower()\<close>: the letters A to Z and the capital letters 0xC0 to 0xDE (0xD7, the
  multiplication sign, apart) move 32 code points up.
\<close>

definition lower_table :: "(char \<times> char) list" where
  "lower_table =
     zip ''ABCDEFGHIJKLMNOPQRSTUVWXYZ'' ''abcdefghijklmnopqrstuvwxyz'' @
     [(CHR 0xC0, CHR 0xE0), (CHR 0xC1, CHR 0xE1), (CHR 0xC2, CHR 0xE2),
      (CHR 0xC3, CHR 0xE3), (CHR 0xC4, CHR 0xE4), (CHR 0xC5, CHR 0xE5),
      (CHR 0xC6, CHR 0xE6), (CHR 0xC7, CHR 0xE7), (CHR 0xC8, CHR 0xE8),
      (CHR 0xC9, CHR 0xE9), (CHR 0xCA, CHR 0xEA), (CHR 0xCB, CHR 0xEB),
      (CHR 0xCC, CHR 0xEC), (CHR 0xCD, CHR 0xED), (CHR 0xCE, CHR 0xEE),
      (CHR 0xCF, CHR 0xEF), (CHR 0xD0, CHR 0xF0), (CHR 0xD1, CHR 0xF1),
      (CHR 0xD2, CHR 0xF2), (CHR 0xD3, CHR 0xF3), (CHR 0xD4, CHR 0xF4),
      (CHR 0xD5, CHR 0xF5), (CHR 0xD6, CHR 0xF6), (CHR 0xD8, CHR 0xF8),
      (CHR 0xD9, CHR 0xF9), (CHR 0xDA, CHR 0xFA), (CHR 0xDB, CHR 0xFB),
      (CHR 0xDC, CHR 0xFC), (CHR 0xDD, CHR 0xFD), (CHR 0xDE, CHR 0xFE)]"

definition lower_char :: "char \<Rightarrow> char" where
  "lower_char c = (case map_of lower_table c of None \<Rightarrow> c | Some l \<Rightarrow> l)"

definition lower :: "string \<Rightarrow> string" where
  "lower s = map lower_char s"

text \<open>\<^verbatim>\<open>s.startswith(p)\<close>, \<^verbatim>\<open>s.endswith(p)\<close> and \<^verbatim>\<open>p in s\<close>.\<close>

fun startswith :: "string \<Rightarrow> string \<Rightarrow> bool" where
  "startswith s [] = True"
| "startswith [] (p # ps) = False"
| "startswith (c # cs) (p # ps) = (c = p \<and> startswith cs ps)"

definition endswith :: "string \<Rightarrow> string \<Rightarrow> bool" where
  "endswith s p = startswith (rev s) (rev p)"

fun contains :: "string \<Rightarrow> string \<Rightarrow> bool" where
  "contains [] p = (p = [])"
| "contains (c # cs) p = (startswith (c # cs) p \<or> contains cs p)"

text \<open>
  \<^verbatim>\<open>s.splitlines()\<close>: the text is cut at every line boundary (line feed, carriage
  return, the pair of both, vertical tab, form feed, 0x1C, 0x1D, 0x1E, NEL); a boundary
  at the very end opens no further line. \<open>cur\<close> is the line read so far.
\<close>

definition is_linebreak :: "char \<Rightarrow> bool" where
  "is_linebreak c = (c \<in> set [CHR 0x0A, CHR 0x0B, CHR 0x0C, CHR 0x0D,
                              CHR 0x1C, CHR 0x1D, CHR 0x1E, CHR 0x85])"

fun splitlines_from :: "string \<Rightarrow> string \<Rightarrow> string list" where
  "splitlines_from cur [] = (if cur = [] then [] else [cur])"
| "splitlines_from cur (c # cs) =
     (if c = CHR 0x0D then
        (case cs of
           [] \<Rightarrow> [cur]
         | d # ds \<Rightarrow>
             if d = CHR 0x0A then cur # splitlines_from [] ds
             else cur # splitlines_from [] (d # ds))
      else if is_linebreak c then cur # splitlines_from [] cs
      else splitlines_from (cur @ [c]) cs)"

definition splitlines :: "string \<Rightarrow> string list" where
  "splitlines s = splitlines_from [] s"

text \<open>
  \<^verbatim>\<open>s.split()\<close>: the maximal runs of characters that are not whitespace.
  \<open>cur\<close> is the run read so far.
\<close>

fun split_ws_from :: "string \<Rightarrow> string \<Rightarrow> string list" where
  "split_ws_from cur [] = (if cur = [] then [] else [cur])"
| "split_ws_from cur (c # cs) =
     (if isspace c then (if cur = [] then split_ws_from [] cs else cur # split_ws_from [] cs)
      else split_ws_from (cur @ [c]) cs)"

definition split_ws :: "string \<Rightarrow> string list" where
  "split_ws s = split_ws_from [] s"

text \<open>\<^verbatim>\<open>s.split(sep)\<close> for a separator of one character: never an empty list.\<close>

fun split_on :: "char \<Rightarrow> string \<Rightarrow> string list" where
  "split_on sep [] = [[]]"
| "split_on sep (c # cs) =
     (if c = sep then [] # split_on sep cs
      else (case split_on sep cs of
              [] \<Rightarrow> [[c]]
            | p # ps \<Rightarrow> (c # p) # ps))"

text \<open>
  \<^verbatim>\<open>s.split(sep, 1)\<close> for a separator that is not empty: the text before and the
  text after the first occurrence, or the text alone. \<open>cur\<close> is the text passed over.
\<close>

fun split_once_from :: "string \<Rightarrow> string \<Rightarrow> string \<Rightarrow> string list" where
  "split_once_from sep cur [] = [cur]"
| "split_once_from sep cur (c # cs) =
     (if startswith (c # cs) sep then [cur, drop (length sep) (c # cs)]
      else split_once_from sep (cur @ [c]) cs)"

definition split_once :: "string \<Rightarrow> string \<Rightarrow> string list" where
  "split_once sep s = split_once_from sep [] s"

text \<open>\<^verbatim>\<open>s.replace(old, new)\<close> for \<open>old\<close> of one character.\<close>

definition replace_char :: "char \<Rightarrow> string \<Rightarrow> string \<Rightarrow> string" where
  "replace_char old new s = concat (map (\<lambda>c. if c = old then new else [c]) s)"

text \<open>\<^verbatim>\<open>sep.join(items)\<close>.\<close>

fun join :: "string \<Rightarrow> string list \<Rightarrow> string" where
  "join sep [] = []"
| "join sep [x] = x"
| "join sep (x # y # ys) = x @ sep @ join sep (y # ys)"

text \<open>
  \<^verbatim>\<open>int(s)\<close> on a string: whitespace around the number is skipped (for \<^verbatim>\<open>int\<close>
  that is tab to carriage return, space, NEL and the no-break space, without the
  separators 0x1C to 0x1F), then an optional sign and decimal digits, where single
  underscores may stand between digits. Anything else raises \<^verbatim>\<open>ValueError\<close>. The
  interpreter's limit on the number of digits is left out.
\<close>

definition int_space :: "char \<Rightarrow> bool" where
  "int_space c = (c \<in> set [CHR 0x09, CHR 0x0A, CHR 0x0B, CHR 0x0C, CHR 0x0D, CHR 0x20,
                           CHR 0x85, CHR 0xA0])"

definition isdigit :: "char \<Rightarrow> bool" where
  "isdigit c = (48 \<le> (of_char c :: nat) \<and> (of_char c :: nat) \<le> 57)"

definition digit_value :: "char \<Rightarrow> int" where
  "digit_value c = int (of_char c - 48)"

fun parse_digits :: "int \<Rightarrow> bool \<Rightarrow> string \<Rightarrow> exn + int" where
  "parse_digits acc after_digit [] = (if after_digit then Inr acc else Inl ValueError)"
| "parse_digits acc after_digit (c # cs) =
     (if isdigit c then parse_digits (10 * acc + digit_value c) True cs
      else if c = CHR ''_'' \<and> after_digit then parse_digits acc False cs
      else Inl ValueError)"

definition py_int :: "string \<Rightarrow> exn + int" where
  "py_int s =
     (case rev (dropWhile int_space (rev (dropWhile int_space s))) of
        [] \<Rightarrow> Inl ValueError
      | c # cs \<Rightarrow>
          if c = CHR ''-'' then and_then (parse_digits 0 False cs) (\<lambda>n. Inr (- n))
          else if c = CHR ''+'' then parse_digits 0 False cs
          else parse_digits 0 False (c # cs))"

text \<open>\<^verbatim>\<open>str(n)\<close> for an integer: decimal digits, with a minus sign below zero.\<close>

fun str_nat :: "nat \<Rightarrow> string" where
  "str_nat n = (if n < 10 then [''0123456789'' ! n]
                else str_nat (n div 10) @ [''0123456789'' ! (n mod 10)])"

definition str_int :: "int \<Rightarrow> string" where
  "str_int i = (if i < 0 then CHR ''-'' # str_nat (nat (- i)) else str_nat (nat i))"

text \<open>
  \<^verbatim>\<open>xs[i]\<close> and \<^verbatim>\<open>xs[a:b]\<close> on a list: an index below zero counts from the end, an
  index out of range raises \<^verbatim>\<open>IndexError\<close>, the bounds of a slice are clipped.
\<close>

definition py_index :: "'a list \<Rightarrow> int \<Rightarrow> exn + 'a" where
  "py_index xs i =
     (let n = int (length xs); j = (if i < 0 then i + n else i)
      in if 0 \<le> j \<and> j < n then Inr (xs ! nat j) else Inl IndexError)"

definition clip_bound :: "nat \<Rightarrow> int \<Rightarrow> nat" where
  "clip_bound n i = (let j = (if i < 0 then i + int n else i)
                     in if j < 0 then 0 else if int n < j then n else nat j)"

definition py_slice :: "'a list \<Rightarrow> int \<Rightarrow> int \<Rightarrow> 'a list" where
  "py_slice xs a b =
     (let lo = clip_bound (length xs) a; hi = clip_bound (length xs) b
      in take (hi - lo) (drop lo xs))"

section \<open>Data model\<close>

text \<open>
  The values of structured testing: what \<^verbatim>\<open>parse_case\<close> builds and what
  \<^verbatim>\<open>java_literal\<close> renders. \<open>PNone\<close> stands for a Python value of any other type.
\<close>

datatype pyval =
    PStr string
  | PBool bool
  | PInt int
  | PList "pyval list"
  | PNone

text \<open>
  A test fixture is a dict with the keys \<^verbatim>\<open>input\<close> and \<^verbatim>\<open>output\<close>, both texts; a
  key that is absent is \<open>None\<close>. A problem is a dict with \<^verbatim>\<open>id\<close>, \<^verbatim>\<open>tests\<close> and
  \<^verbatim>\<open>method_signatures\<close>.
\<close>

record test_case =
  tc_input :: "string option"
  tc_output :: "string option"

record problem =
  pr_id :: "int option"
  pr_tests :: "test_case list option"
  pr_method_signatures :: "(string \<rightharpoonup> string) option"

text \<open>A structured case, \<^verbatim>\<open>{"args": args, "expected": expected}\<close>.\<close>

record structured_case =
  sc_args :: "pyval list"
  sc_expected :: pyval

section \<open>Processes\<close>

text \<open>
  What a process wrote to a pipe is a byte string. The grader only ever calls
  \<^verbatim>\<open>.decode()\<close> on it, which yields the text when the bytes are valid UTF-8 and
  raises \<^verbatim>\<open>UnicodeDecodeError\<close> otherwise, so a byte string is represented by that
  alternative.
\<close>

datatype bytes = Utf8 string | NotUtf8

fun decode :: "bytes \<Rightarrow> exn + string" where
  "decode (Utf8 s) = Inr s"
| "decode NotUtf8 = Inl UnicodeDecodeError"

text \<open>
  \<^verbatim>\<open>subprocess.run(..., timeout=t)\<close> either raises \<^verbatim>\<open>TimeoutExpired\<close> or returns a
  completed process with its return code, stdout and stderr.
\<close>

datatype proc_outcome = Expired | Completed int bytes bytes

text \<open>
  The command lines the sources start, each with the files it finds in the fresh
  temporary directory: \<open>Gpp code\<close> is \<^verbatim>\<open>g++ -std=c++17 -O2 main.cpp -o a.out\<close> on
  \<^verbatim>\<open>main.cpp = code\<close>, \<open>AOut code inp\<close> is \<^verbatim>\<open>./a.out\<close> of that build reading
  \<open>inp\<close>, \<open>Python3 code inp\<close> is \<^verbatim>\<open>python3 solution.py\<close> reading \<open>inp\<close>.
  The structured path starts three more: \<open>PythonHarness code func cases\<close> is
  \<^verbatim>\<open>python3 runner.py\<close> beside \<^verbatim>\<open>solution.py = code\<close>, where \<^verbatim>\<open>runner.py\<close> is the
  harness text for \<open>func\<close> and \<open>cases\<close>; \<open>Javac code func cases pid\<close> is
  \<^verbatim>\<open>javac Main.java Harness.java\<close> on \<^verbatim>\<open>Main.java = code\<close> and
  \<^verbatim>\<open>Harness.java = build_java_harness(func, cases, pid)\<close>; \<open>JavaHarness\<close> is
  \<^verbatim>\<open>java Harness\<close> on the classes of that build.
\<close>

datatype command =
    Gpp string
  | AOut string string
  | Python3 string string
  | PythonHarness string string "structured_case list"
  | Javac string string "structured_case list" int
  | JavaHarness string string "structured_case list" int

text \<open>
  The operating system is an oracle: given the commands run so far and the next
  command, it says how that process ends. The time limit belongs to the oracle: an
  expired limit is the outcome \<open>Expired\<close>. Running a process appends it to the trace.
  Every command can be started and every file can be written: a compiler that is not
  installed and a full disk are outside the model.
\<close>

type_synonym trace = "command list"
type_synonym world = "trace \<Rightarrow> command \<Rightarrow> proc_outcome"

definition subprocess_run :: "world \<Rightarrow> command \<Rightarrow> trace \<Rightarrow> proc_outcome \<times> trace" where
  "subprocess_run w cmd tr = (w tr cmd, tr @ [cmd])"

section \<open>Sandboxed runners\<close>

text \<open>
  The dict a runner returns; the field \<open>res_k\<close> is its key \<^verbatim>\<open>k\<close>. The keys
  \<^verbatim>\<open>compile_error\<close> and \<^verbatim>\<open>timeout\<close> are present in some branches only:
  \<open>None\<close> is the absent key.
\<close>

record exec_result =
  res_success :: bool
  res_output :: string
  res_error :: string
  res_compile_error :: "bool option"
  res_timeout :: "bool option"

text \<open>
  The two arguments of \<^verbatim>\<open>run\<close> are values of \<^verbatim>\<open>str\<close>, and a runner does nothing
  with them but encode them: \<^verbatim>\<open>write_text(code)\<close> and \<^verbatim>\<open>input_data.encode()\<close>, both
  to UTF-8 (the encoding of the locale is taken to be UTF-8). Encoding raises
  \<^verbatim>\<open>UnicodeEncodeError\<close> on a text that holds a lone surrogate, which a JSON payload
  can deliver (\<^verbatim>\<open>json.loads\<close> accepts the escape of one), and on no other text. So
  an argument of \<^verbatim>\<open>run\<close> is represented by that alternative: \<open>Text s\<close> is a text that
  can be encoded, \<open>WithSurrogate\<close> one that cannot. The texts that the grader itself
  works on are of the first kind.
\<close>

datatype pystr = Text string | WithSurrogate

fun encode :: "pystr \<Rightarrow> exn + string" where
  "encode (Text s) = Inr s"
| "encode WithSurrogate = Inl UnicodeEncodeError"

type_synonym runner = "pystr \<Rightarrow> pystr \<Rightarrow> trace \<Rightarrow> (exn + exec_result) \<times> trace"

text \<open>
  \<^verbatim>\<open>judge/cpp_runner.py\<close>, \<^verbatim>\<open>run\<close>. The source file is written first; the input is
  encoded when the arguments of the second \<^verbatim>\<open>subprocess.run\<close> are evaluated, after a
  compilation that succeeded. Only \<^verbatim>\<open>TimeoutExpired\<close> is caught.
\<close>

definition cpp_run :: "world \<Rightarrow> runner" where
  "cpp_run w code input_data tr =
     (case encode code of
        Inl e \<Rightarrow> (Inl e, tr)
      | Inr main_cpp \<Rightarrow>
     (case subprocess_run w (Gpp main_cpp) tr of
        (Expired, tr1) \<Rightarrow>
          (Inr \<lparr>res_success = False, res_output = [], res_error = ''Compilation timed out'',
                res_compile_error = Some True, res_timeout = Some True\<rparr>, tr1)
      | (Completed rc out err, tr1) \<Rightarrow>
          if rc \<noteq> 0 then
            (case decode err of
               Inl e \<Rightarrow> (Inl e, tr1)
             | Inr msg \<Rightarrow>
                 (Inr \<lparr>res_success = False, res_output = [], res_error = msg,
                       res_compile_error = Some True, res_timeout = None\<rparr>, tr1))
          else
            (case encode input_data of
               Inl e \<Rightarrow> (Inl e, tr1)
             | Inr stdin \<Rightarrow>
            (case subprocess_run w (AOut main_cpp stdin) tr1 of
               (Expired, tr2) \<Rightarrow>
                 (Inr \<lparr>res_success = False, res_output = [], res_error = ''Execution timed out'',
                       res_compile_error = None, res_timeout = Some True\<rparr>, tr2)
             | (Completed rc2 out2 err2, tr2) \<Rightarrow>
                 (case decode out2 of
                    Inl e \<Rightarrow> (Inl e, tr2)
                  | Inr out_text \<Rightarrow>
                      (case decode err2 of
                         Inl e \<Rightarrow> (Inl e, tr2)
                       | Inr err_text \<Rightarrow>
                           (Inr \<lparr>res_success = (rc2 = 0), res_output = out_text, res_error = err_text,
                                 res_compile_error = None, res_timeout = None\<rparr>, tr2)))))))"

text \<open>
  \<^verbatim>\<open>judge/python_runner.py\<close>, \<^verbatim>\<open>run\<close>: no compile step. The file is written, then
  the input is encoded, then the interpreter is started.
\<close>

definition python_run :: "world \<Rightarrow> runner" where
  "python_run w code input_data tr =
     (case encode code of
        Inl e \<Rightarrow> (Inl e, tr)
      | Inr solution_py \<Rightarrow>
     (case encode input_data of
        Inl e \<Rightarrow> (Inl e, tr)
      | Inr stdin \<Rightarrow>
     (case subprocess_run w (Python3 solution_py stdin) tr of
        (Expired, tr1) \<Rightarrow>
          (Inr \<lparr>res_success = False, res_output = [], res_error = ''Execution timed out'',
                res_compile_error = None, res_timeout = Some True\<rparr>, tr1)
      | (Completed rc out err, tr1) \<Rightarrow>
          (case decode out of
             Inl e \<Rightarrow> (Inl e, tr1)
           | Inr out_text \<Rightarrow>
               (case decode err of
                  Inl e \<Rightarrow> (Inl e, tr1)
                | Inr err_text \<Rightarrow>
                    (Inr \<lparr>res_success = (rc = 0), res_output = out_text, res_error = err_text,
                          res_compile_error = None, res_timeout = None\<rparr>, tr1))))))"

section \<open>Language normalizer\<close>

text \<open>\<^verbatim>\<open>utils/grader.py\<close>: the constants and \<^verbatim>\<open>ensure_java_imports\<close>.\<close>

definition JAVA_IMPORT_LINE :: string where
  "JAVA_IMPORT_LINE = ''import java.util.*;''"

definition CPP_INCLUDE_LINE :: string where
  "CPP_INCLUDE_LINE = ''#include <bits/stdc++.h>''"

text \<open>
  The loop over \<^verbatim>\<open>enumerate(lines)\<close>: it moves \<open>insert_at\<close> past every leading line
  that, stripped, starts with \<^verbatim>\<open>package \<close> or \<^verbatim>\<open>import \<close> or is empty, and breaks at
  the first other line.
\<close>

fun preamble_end :: "string list \<Rightarrow> nat \<Rightarrow> nat \<Rightarrow> nat" where
  "preamble_end [] idx insert_at = insert_at"
| "preamble_end (line # rest) idx insert_at =
     (let stripped = strip line
      in if startswith stripped ''package '' \<or> startswith stripped ''import ''
         then preamble_end rest (idx + 1) (idx + 1)
         else if stripped = [] then preamble_end rest (idx + 1) (idx + 1)
         else insert_at)"

definition ensure_java_imports :: "string \<Rightarrow> string" where
  "ensure_java_imports code =
     (if contains code ''import java.util'' then code
      else
        let lines = splitlines code;
            insert_at = preamble_end lines 0 0;
            lines' = take insert_at lines @ [JAVA_IMPORT_LINE] @ drop insert_at lines
        in join [CHR 0x0A] lines' @ (if endswith code [CHR 0x0A] then [CHR 0x0A] else []))"

definition ensure_cpp_includes :: "string \<Rightarrow> string" where
  "ensure_cpp_includes code =
     (if contains code CPP_INCLUDE_LINE then code
      else
        let prefix = CPP_INCLUDE_LINE @ [CHR 0x0A]
        in if startswith code ''#include'' then prefix @ code
           else prefix @ [CHR 0x0A] @ code)"

definition ensure_python_imports :: "string \<Rightarrow> string" where
  "ensure_python_imports code =
     (if contains code ''List['' \<and> \<not> contains code ''from typing import''
           \<and> \<not> contains code ''import typing''
      then ''from typing import List'' @ [CHR 0x0A, CHR 0x0A] @ code
      else code)"

definition apply_language_boilerplate :: "string \<Rightarrow> string \<Rightarrow> string" where
  "apply_language_boilerplate language code =
     (let lang_key = lower (strip language);
          prepared = code
      in if lang_key = ''java'' then ensure_java_imports prepared
         else if lang_key \<in> set [''c++'', ''cpp'', ''c''] then ensure_cpp_includes prepared
         else if lang_key \<in> set [''python'', ''py''] then ensure_python_imports prepared
         else prepared)"

section \<open>Case extraction\<close>

text \<open>
  \<^verbatim>\<open>parse_case\<close>. Its first line, the lines of the input that are not blank:
\<close>

definition nonblank_lines :: "string \<Rightarrow> string list" where
  "nonblank_lines raw_input = filter (\<lambda>ln. strip ln \<noteq> []) (splitlines raw_input)"

text \<open>
  \<^verbatim>\<open>a, b = map(int, line.split())\<close>: exactly two fields, both integers; a wrong
  number of fields and a field that is no integer both raise \<^verbatim>\<open>ValueError\<close>.
\<close>

definition int_pair :: "string \<Rightarrow> exn + int \<times> int" where
  "int_pair line =
     (case split_ws line of
        [a, b] \<Rightarrow> and_then (py_int a) (\<lambda>x. and_then (py_int b) (\<lambda>y. Inr (x, y)))
      | _ \<Rightarrow> Inl ValueError)"

text \<open>
  The loops \<^verbatim>\<open>for i in range(n)\<close> of problems 3, 6 and 10, which read the pair of line
  \<open>start + i\<close> and append it as a list of two integers.
\<close>

definition read_pairs :: "string list \<Rightarrow> int \<Rightarrow> int \<Rightarrow> exn + pyval list" where
  "read_pairs lines start n =
     map_exn (\<lambda>i. and_then (py_index lines (start + int i)) (\<lambda>line.
                   and_then (int_pair line) (\<lambda>(a, b). Inr (PList [PInt a, PInt b]))))
             [0..<nat n]"

definition parse_case :: "int option \<Rightarrow> string \<Rightarrow> string \<Rightarrow> exn + pyval list \<times> pyval" where
  "parse_case problem_id raw_input raw_output =
     (let lines = nonblank_lines raw_input in
      if problem_id = Some 1 then
        and_then (py_index lines 0) (\<lambda>l0.
        and_then (py_int l0) (\<lambda>n.
        let draft = py_slice lines 1 (1 + n) in
        and_then (if 1 + n < int (length lines)
                  then and_then (py_index lines (1 + n)) py_int else Inr 0) (\<lambda>m.
        let fin = py_slice lines (2 + n) (2 + n + m) in
        and_then (py_int (strip raw_output)) (\<lambda>expected.
        Inr ([PList (map PStr draft), PList (map PStr fin)], PInt expected)))))
      else if problem_id = Some 2 then
        (let s = strip raw_input in
         and_then (py_int (strip raw_output)) (\<lambda>expected. Inr ([PStr s], PInt expected)))
      else if problem_id = Some 3 then
        and_then (if lines \<noteq> [] then and_then (py_index lines 0) py_int else Inr 0) (\<lambda>n.
        and_then (read_pairs lines 1 n) (\<lambda>cookies.
        and_then (py_int (strip raw_output)) (\<lambda>expected.
        Inr ([PList cookies], PInt expected))))
      else if problem_id = Some 4 then
        (let elves = map strip (filter (\<lambda>p. strip p \<noteq> []) (split_on CHR '','' raw_input));
             expected_list = splitlines (strip raw_output)
         in Inr ([PList (map PStr elves)], PList (map PStr expected_list)))
      else if problem_id = Some 5 then
        and_then (map_exn (\<lambda>x. py_int (strip x))
                    (filter (\<lambda>x. strip x \<noteq> [])
                       (split_ws (replace_char CHR '','' '' '' raw_input)))) (\<lambda>nums.
        and_then (map_exn (\<lambda>x. py_int (strip x))
                    (filter (\<lambda>x. strip x \<noteq> []) (splitlines (strip raw_output))))
          (\<lambda>expected_list.
        Inr ([PList (map PInt nums)], PList (map PInt expected_list))))
      else if problem_id = Some 6 then
        and_then (py_index lines 0) (\<lambda>l0.
        and_then (int_pair l0) (\<lambda>(start, stop).
        and_then (if 1 < length lines then and_then (py_index lines 1) py_int else Inr 0) (\<lambda>n.
        and_then (read_pairs lines 2 n) (\<lambda>intervals.
        Inr ([PInt start, PInt stop, PList intervals], PStr (strip raw_output))))))
      else if problem_id = Some 7 then
        and_then (py_index lines 0) (\<lambda>s.
        and_then (py_index lines 1) (\<lambda>l1.
        and_then (py_int l1) (\<lambda>k.
        Inr ([PStr s, PInt k], PStr (strip raw_output)))))
      else if problem_id = Some 8 then
        and_then (map_exn (\<lambda>x. py_int (strip x))
                    (filter (\<lambda>x. strip x \<noteq> [])
                       (split_ws (replace_char CHR '','' '' '' raw_input)))) (\<lambda>nums.
        and_then (py_int (strip raw_output)) (\<lambda>expected.
        Inr ([PList (map PInt nums)], PInt expected)))
      else if problem_id = Some 9 then
        and_then (py_index lines 0) (\<lambda>l0.
        and_then (py_int l0) (\<lambda>n.
        let grid = py_slice lines 1 (1 + n) in
        and_then (py_int (strip raw_output)) (\<lambda>expected.
        Inr ([PList (map PStr grid)], PInt expected))))
      else if problem_id = Some 10 then
        and_then (if lines \<noteq> [] then and_then (py_index lines 0) py_int else Inr 0) (\<lambda>n.
        and_then (if 1 < length lines then and_then (py_index lines 1) py_int else Inr 0) (\<lambda>m.
        and_then (read_pairs lines 2 m) (\<lambda>edges.
        Inr ([PInt n, PList edges], PStr (strip raw_output)))))
      else Inl ValueError)"

text \<open>
  \<^verbatim>\<open>build_structured_cases\<close>: \<^verbatim>\<open>test["input"]\<close> and \<^verbatim>\<open>test["output"]\<close> raise
  \<^verbatim>\<open>KeyError\<close> on an absent key; any exception of the loop makes the result
  \<^verbatim>\<open>None\<close>.
\<close>

definition subscript :: "'a option \<Rightarrow> exn + 'a" where
  "subscript v = (case v of None \<Rightarrow> Inl KeyError | Some x \<Rightarrow> Inr x)"

definition get_tests :: "problem \<Rightarrow> test_case list" where
  "get_tests problem = (case pr_tests problem of None \<Rightarrow> [] | Some tests \<Rightarrow> tests)"

definition structured_case_of :: "int option \<Rightarrow> test_case \<Rightarrow> exn + structured_case" where
  "structured_case_of problem_id test =
     and_then (subscript (tc_input test)) (\<lambda>raw_input.
     and_then (subscript (tc_output test)) (\<lambda>raw_output.
     and_then (parse_case problem_id raw_input raw_output) (\<lambda>(args, expected).
     Inr \<lparr>sc_args = args, sc_expected = expected\<rparr>)))"

definition build_structured_cases :: "problem \<Rightarrow> structured_case list option" where
  "build_structured_cases problem =
     (let problem_id = pr_id problem;
          tests = get_tests problem
      in case map_exn (structured_case_of problem_id) tests of
           Inl e \<Rightarrow> None
         | Inr cases \<Rightarrow> Some cases)"

section \<open>Structured grading\<close>

text \<open>
  One entry of \<^verbatim>\<open>details\<close>. The stdin path writes the keys \<^verbatim>\<open>input\<close>,
  \<^verbatim>\<open>expected\<close>, \<^verbatim>\<open>output\<close>, \<^verbatim>\<open>error\<close>, \<^verbatim>\<open>passed\<close> and, for a case that ran,
  \<^verbatim>\<open>compile_error\<close> and \<^verbatim>\<open>timeout\<close>; the structured path writes \<^verbatim>\<open>passed\<close> and
  \<^verbatim>\<open>error\<close>. The field \<open>det_k\<close> is the key \<^verbatim>\<open>k\<close>, \<open>None\<close> an absent key.
\<close>

record detail =
  det_input :: "string option"
  det_expected :: "string option"
  det_output :: "string option"
  det_error :: string
  det_passed :: bool
  det_compile_error :: "bool option"
  det_timeout :: "bool option"

text \<open>The report, \<^verbatim>\<open>{"passed", "total", "details", "compile_error"}\<close>.\<close>

record report =
  rep_passed :: nat
  rep_total :: nat
  rep_details :: "detail list"
  rep_compile_error :: bool

text \<open>What \<^verbatim>\<open>grade_submission\<close> returns: a report, or the dict with the key \<^verbatim>\<open>error\<close>.\<close>

datatype grade_result = GradeReport report | ErrorOnly string

text \<open>The dict \<^verbatim>\<open>{"passed": p, "error": e}\<close> of the structured path.\<close>

definition outcome :: "bool \<Rightarrow> string \<Rightarrow> detail" where
  "outcome p e = \<lparr>det_input = None, det_expected = None, det_output = None, det_error = e,
                  det_passed = p, det_compile_error = None, det_timeout = None\<rparr>"

text \<open>
  \<^verbatim>\<open>get_function_name\<close>. \<^verbatim>\<open>sigs.get(language) or sigs.get(language.lower())\<close> takes
  the second lookup when the first is absent or the empty string.
\<close>

definition get_function_name :: "problem \<Rightarrow> string \<Rightarrow> exn + string option" where
  "get_function_name problem language =
     (let sigs = (case pr_method_signatures problem of None \<Rightarrow> Map.empty | Some m \<Rightarrow> m);
          sig = (case sigs language of
                   None \<Rightarrow> sigs (lower language)
                 | Some t \<Rightarrow> if t = [] then sigs (lower language) else Some t)
      in case sig of
           None \<Rightarrow> Inr None
         | Some sg \<Rightarrow>
             if sg = [] then Inr None
             else if language = ''python'' then
               (if contains sg ''def '' then
                  and_then (py_index (split_once ''def '' sg) 1) (\<lambda>rest.
                  and_then (py_index (split_once ''('' rest) 0) (\<lambda>name.
                  Inr (Some (strip name))))
                else Inr None)
             else if language = ''java'' then
               (let tokens = split_ws sg
                in if 4 \<le> length tokens then
                     and_then (py_index tokens 3) (\<lambda>tok.
                     and_then (py_index (split_on CHR ''('' tok) 0) (\<lambda>name.
                     Inr (Some name)))
                   else Inr None)
             else Inr None)"

text \<open>
  The loop of \<^verbatim>\<open>grade_structured_python\<close> over the lines of the harness's stdout,
  with the accumulators \<open>results\<close> and \<open>passed\<close>. The index \<open>idx\<close> is parsed and
  not used.
\<close>

fun python_result_lines :: "string list \<Rightarrow> detail list \<Rightarrow> nat \<Rightarrow> exn + detail list \<times> nat" where
  "python_result_lines [] results passed = Inr (results, passed)"
| "python_result_lines (line # rest) results passed =
     (if \<not> startswith line ''RESULT|'' then python_result_lines rest results passed
      else
        let parts = split_on CHR ''|'' line in
        (case and_then (py_index parts 1) py_int of
          Inl e \<Rightarrow> Inl e
        | Inr idx \<Rightarrow>
            (case py_index parts 2 of
               Inl e \<Rightarrow> Inl e
             | Inr status \<Rightarrow>
                 if status = ''PASS'' then
                   python_result_lines rest (results @ [outcome True []]) (passed + 1)
                 else if startswith status ''FAIL'' then
                   (let err = (if 5 \<le> length parts
                               then ''Got '' @ parts ! 3 @ '' Expected '' @ parts ! 4
                               else ''Mismatch'')
                    in python_result_lines rest (results @ [outcome False err]) passed)
                 else
                   (let err = (if 3 < length parts then parts ! 3 else ''Error'')
                    in python_result_lines rest (results @ [outcome False err]) passed))))"

definition grade_structured_python ::
  "world \<Rightarrow> string \<Rightarrow> string \<Rightarrow> structured_case list \<Rightarrow> trace \<Rightarrow> (exn + report) \<times> trace" where
  "grade_structured_python w code func_name cases tr =
     (case subprocess_run w (PythonHarness code func_name cases) tr of
        (Expired, tr1) \<Rightarrow> (Inl TimeoutExpired, tr1)
      | (Completed returncode out err, tr1) \<Rightarrow>
          (case decode out of
             Inl e \<Rightarrow> (Inl e, tr1)
           | Inr text \<Rightarrow>
               (let stdout_lines = splitlines text;
                    compile_error = (returncode \<noteq> 0)
                in (case python_result_lines stdout_lines [] 0 of
                      Inl e \<Rightarrow> (Inl e, tr1)
                    | Inr (results, passed) \<Rightarrow>
                        (Inr \<lparr>rep_passed = passed, rep_total = length cases,
                              rep_details = results, rep_compile_error = compile_error\<rparr>,
                         tr1)))))"

text \<open>The loop of \<^verbatim>\<open>grade_structured_java\<close> over the lines of the harness's stdout.\<close>

fun java_result_lines :: "string list \<Rightarrow> detail list \<Rightarrow> nat \<Rightarrow> exn + detail list \<times> nat" where
  "java_result_lines [] results passed = Inr (results, passed)"
| "java_result_lines (line # rest) results passed =
     (if \<not> startswith line ''RESULT|'' then java_result_lines rest results passed
      else
        let parts = split_on CHR ''|'' line in
        (case and_then (py_index parts 1) py_int of
          Inl e \<Rightarrow> Inl e
        | Inr idx \<Rightarrow>
            (case py_index parts 2 of
               Inl e \<Rightarrow> Inl e
             | Inr status \<Rightarrow>
                 if status = ''PASS'' then
                   java_result_lines rest (results @ [outcome True []]) (passed + 1)
                 else if status = ''FAIL'' then
                   (let actual = (if 3 < length parts then parts ! 3 else []);
                        expected = (if 4 < length parts then parts ! 4 else [])
                    in java_result_lines rest
                         (results @ [outcome False (''Got '' @ actual @ '' Expected '' @ expected)])
                         passed)
                 else
                   (let err = (if 3 < length parts then parts ! 3 else ''Runtime error'')
                    in java_result_lines rest (results @ [outcome False err]) passed))))"

text \<open>
  \<^verbatim>\<open>grade_structured_java\<close>. The harness text is a function of \<open>func_name\<close>,
  \<open>cases\<close> and \<open>problem_id\<close>, which the command carries; \<^verbatim>\<open>build_java_harness\<close>
  does not raise on the cases that \<^verbatim>\<open>parse_case\<close> built for the same problem,
  the only ones it is called with.
\<close>

definition grade_structured_java ::
  "world \<Rightarrow> string \<Rightarrow> string \<Rightarrow> structured_case list \<Rightarrow> int \<Rightarrow> trace
     \<Rightarrow> (exn + report) \<times> trace" where
  "grade_structured_java w code func_name cases problem_id tr =
     (case subprocess_run w (Javac code func_name cases problem_id) tr of
        (Expired, tr1) \<Rightarrow> (Inl TimeoutExpired, tr1)
      | (Completed returncode out err, tr1) \<Rightarrow>
          if returncode \<noteq> 0 then
            (case decode err of
               Inl e \<Rightarrow> (Inl e, tr1)
             | Inr msg \<Rightarrow>
                 (Inr \<lparr>rep_passed = 0, rep_total = length cases,
                       rep_details = [(outcome False msg)\<lparr>det_compile_error := Some True\<rparr>],
                       rep_compile_error = True\<rparr>, tr1))
          else
            (case subprocess_run w (JavaHarness code func_name cases problem_id) tr1 of
               (Expired, tr2) \<Rightarrow> (Inl TimeoutExpired, tr2)
             | (Completed returncode2 out2 err2, tr2) \<Rightarrow>
                 (case decode out2 of
                    Inl e \<Rightarrow> (Inl e, tr2)
                  | Inr text \<Rightarrow>
                      (case java_result_lines (splitlines text) [] 0 of
                         Inl e \<Rightarrow> (Inl e, tr2)
                       | Inr (results, passed) \<Rightarrow>
                           (Inr \<lparr>rep_passed = passed, rep_total = length cases,
                                 rep_details = results, rep_compile_error = False\<rparr>, tr2)))))"

text \<open>
  \<^verbatim>\<open>grade_structured\<close>. \<^verbatim>\<open>not func_name\<close> holds for \<^verbatim>\<open>None\<close> and for the empty
  string, \<^verbatim>\<open>not problem_id\<close> for \<^verbatim>\<open>None\<close> and for 0.
\<close>

definition grade_structured ::
  "world \<Rightarrow> string \<Rightarrow> string \<Rightarrow> problem \<Rightarrow> structured_case list \<Rightarrow> trace
     \<Rightarrow> (exn + report) \<times> trace" where
  "grade_structured w language code problem cases tr =
     (case get_function_name problem language of
        Inl e \<Rightarrow> (Inl e, tr)
      | Inr func_name \<Rightarrow>
          (case (func_name, pr_id problem) of
             (Some name, Some problem_id) \<Rightarrow>
               if name = [] \<or> problem_id = 0 then (Inl ValueError, tr)
               else if language = ''python'' then grade_structured_python w code name cases tr
               else if language = ''java'' then
                 grade_structured_java w code name cases problem_id tr
               else (Inl ValueError, tr)
           | _ \<Rightarrow> (Inl ValueError, tr)))"

section \<open>Grading orchestrator\<close>

text \<open>
  \<^verbatim>\<open>RUNNERS\<close>. \<^verbatim>\<open>judge/java_runner.py\<close> is not among the sources, so the runner
  registered for \<^verbatim>\<open>java\<close> is a parameter.
\<close>

definition RUNNERS :: "world \<Rightarrow> runner \<Rightarrow> string \<Rightarrow> runner option" where
  "RUNNERS w java_run key =
     (if key = ''python'' then Some (python_run w)
      else if key = ''py'' then Some (python_run w)
      else if key = ''java'' then Some java_run
      else if key = ''c++'' then Some (cpp_run w)
      else if key = ''cpp'' then Some (cpp_run w)
      else if key = ''c'' then Some (cpp_run w)
      else None)"

text \<open>\<^verbatim>\<open>test.get("input", "")\<close> and \<^verbatim>\<open>test.get("output", "")\<close>.\<close>

definition get_input :: "test_case \<Rightarrow> string" where
  "get_input test = (case tc_input test of None \<Rightarrow> [] | Some s \<Rightarrow> s)"

definition get_output :: "test_case \<Rightarrow> string" where
  "get_output test = (case tc_output test of None \<Rightarrow> [] | Some s \<Rightarrow> s)"

text \<open>
  The two dicts that the loop of \<^verbatim>\<open>grade_submission\<close> appends to \<^verbatim>\<open>results\<close>: the
  one for a test that follows a compile failure, and the one for a test that was run,
  built from the runner's result \<open>res\<close> and the values computed from it.
\<close>

definition skipped_detail :: "test_case \<Rightarrow> detail" where
  "skipped_detail test =
     \<lparr>det_input = Some (get_input test),
      det_expected = Some (strip (get_output test)),
      det_output = Some [],
      det_error = ''Compilation failed'',
      det_passed = False,
      det_compile_error = None,
      det_timeout = None\<rparr>"

definition ran_detail :: "test_case \<Rightarrow> exec_result \<Rightarrow> string \<Rightarrow> bool \<Rightarrow> detail" where
  "ran_detail test res expected_clean test_passed =
     \<lparr>det_input = Some (get_input test),
      det_expected = Some expected_clean,
      det_output = Some (res_output res),
      det_error = res_error res,
      det_passed = test_passed,
      det_compile_error = Some (case res_compile_error res of None \<Rightarrow> False | Some b \<Rightarrow> b),
      det_timeout = Some (case res_timeout res of None \<Rightarrow> False | Some b \<Rightarrow> b)\<rparr>"

text \<open>
  The loop \<^verbatim>\<open>for test in tests\<close> of \<^verbatim>\<open>grade_submission\<close>, with its variables
  \<open>results\<close>, \<open>passed\<close> and \<open>compile_failure\<close>. An exception of the runner leaves
  the loop. The code and the input that the runner is called with are texts of the
  grader.
\<close>

fun stdin_loop ::
  "runner \<Rightarrow> string \<Rightarrow> test_case list \<Rightarrow> detail list \<Rightarrow> nat \<Rightarrow> bool \<Rightarrow> trace
     \<Rightarrow> (exn + detail list \<times> nat \<times> bool) \<times> trace" where
  "stdin_loop run prepared_code [] results passed compile_failure tr =
     (Inr (results, passed, compile_failure), tr)"
| "stdin_loop run prepared_code (test # tests) results passed compile_failure tr =
     (if compile_failure then
        stdin_loop run prepared_code tests (results @ [skipped_detail test])
          passed compile_failure tr
      else
        (case run (Text prepared_code) (Text (get_input test)) tr of
           (Inl e, tr1) \<Rightarrow> (Inl e, tr1)
         | (Inr res, tr1) \<Rightarrow>
             let output_clean = strip (res_output res);
                 expected_clean = strip (get_output test);
                 test_passed = (res_success res \<and> output_clean = expected_clean)
             in stdin_loop run prepared_code tests
                  (results @ [ran_detail test res expected_clean test_passed])
                  (if test_passed then passed + 1 else passed)
                  (if res_compile_error res = Some True then True else compile_failure)
                  tr1))"

text \<open>
  The second half of \<^verbatim>\<open>grade_submission\<close>, from \<^verbatim>\<open>runner = RUNNERS.get(lang_key)\<close>
  on: the stdin path.
\<close>

definition stdin_grading ::
  "runner option \<Rightarrow> string \<Rightarrow> string \<Rightarrow> problem \<Rightarrow> trace \<Rightarrow> (exn + grade_result) \<times> trace" where
  "stdin_grading runner language prepared_code problem tr =
     (case runner of
        None \<Rightarrow> (Inr (ErrorOnly (''Unsupported language: '' @ language)), tr)
      | Some run \<Rightarrow>
          (let tests = get_tests problem
           in (case stdin_loop run prepared_code tests [] 0 False tr of
                 (Inl e, tr') \<Rightarrow> (Inl e, tr')
               | (Inr (results, passed, compile_failure), tr') \<Rightarrow>
                   (Inr (GradeReport \<lparr>rep_passed = passed, rep_total = length tests,
                                      rep_details = results,
                                      rep_compile_error = compile_failure\<rparr>), tr'))))"

text \<open>
  The first half of \<^verbatim>\<open>grade_submission\<close>: the structured path is tried when
  \<^verbatim>\<open>structured_cases\<close> is a list that is not empty and the language is \<^verbatim>\<open>java\<close> or
  \<^verbatim>\<open>python\<close>. \<open>None\<close> says that it was not tried.
\<close>

definition structured_attempt ::
  "world \<Rightarrow> string \<Rightarrow> string \<Rightarrow> problem \<Rightarrow> trace \<Rightarrow> ((exn + report) \<times> trace) option" where
  "structured_attempt w lang_key prepared_code problem tr =
     (case build_structured_cases problem of
        None \<Rightarrow> None
      | Some structured_cases \<Rightarrow>
          if structured_cases \<noteq> [] \<and> lang_key \<in> set [''java'', ''python'']
          then Some (grade_structured w lang_key prepared_code problem structured_cases tr)
          else None)"

text \<open>
  \<^verbatim>\<open>grade_submission\<close>: a report of the structured path is returned; any exception
  of it is dropped (\<^verbatim>\<open>except Exception: pass\<close>) and the stdin path follows, from
  the trace that the structured path left. \<open>language\<close> and \<open>code\<close> are texts, so
  that \<^verbatim>\<open>language or ""\<close> and \<^verbatim>\<open>code or ""\<close> are the texts themselves.
\<close>

definition grade_submission ::
  "world \<Rightarrow> runner \<Rightarrow> string \<Rightarrow> string \<Rightarrow> problem \<Rightarrow> trace \<Rightarrow> (exn + grade_result) \<times> trace" where
  "grade_submission w java_run language code problem tr =
     (let lang_key = lower (strip language);
          prepared_code = apply_language_boilerplate lang_key code
      in case structured_attempt w lang_key prepared_code problem tr of
           Some (Inr rep, tr1) \<Rightarrow> (Inr (GradeReport rep), tr1)
         | Some (Inl e, tr1) \<Rightarrow>
             stdin_grading (RUNNERS w java_run lang_key) language prepared_code problem tr1
         | None \<Rightarrow>
             stdin_grading (RUNNERS w java_run lang_key) language prepared_code problem tr)"

section \<open>Java literals\<close>

text \<open>
  \<^verbatim>\<open>isinstance(x, int)\<close> holds for the booleans too, \<^verbatim>\<open>bool\<close> being a subclass of
  \<^verbatim>\<open>int\<close>; \<^verbatim>\<open>str(x)\<close> of such a value is its decimal form, or \<^verbatim>\<open>True\<close> and
  \<^verbatim>\<open>False\<close>.
\<close>

fun is_int :: "pyval \<Rightarrow> bool" where
  "is_int (PInt i) = True"
| "is_int (PBool b) = True"
| "is_int v = False"

fun is_str :: "pyval \<Rightarrow> bool" where
  "is_str (PStr s) = True"
| "is_str v = False"

fun str_of_int :: "pyval \<Rightarrow> string" where
  "str_of_int (PInt i) = str_int i"
| "str_of_int (PBool b) = (if b then ''True'' else ''False'')"
| "str_of_int v = []"

fun is_int_list :: "pyval \<Rightarrow> bool" where
  "is_int_list (PList ys) = list_all is_int ys"
| "is_int_list v = False"

fun is_str_list :: "pyval \<Rightarrow> bool" where
  "is_str_list (PList ys) = list_all is_str ys"
| "is_str_list v = False"

definition java_list_str :: "string list \<Rightarrow> string" where
  "java_list_str items = ''Arrays.asList('' @ join '', '' items @ '')''"

fun java_literal :: "pyval \<Rightarrow> string" where
  "java_literal (PStr s) =
     (let escaped = replace_char (CHR 0x22) [CHR 0x5C, CHR 0x22]
                      (replace_char (CHR 0x5C) [CHR 0x5C, CHR 0x5C] s)
      in [CHR 0x22] @ escaped @ [CHR 0x22])"
| "java_literal (PBool b) = (if b then ''true'' else ''false'')"
| "java_literal (PInt i) = str_int i"
| "java_literal (PList val) =
     (if val = [] then ''new ArrayList<>()''
      else if list_all is_int val then
        ''Arrays.asList('' @ join '', '' (map str_of_int val) @ '')''
      else if list_all is_str val then java_list_str (map java_literal val)
      else if list_all is_int_list val then
        (let inner = join '', ''
               (map (\<lambda>x. case x of
                             PList ys \<Rightarrow> ''new int[]{'' @ join '', '' (map str_of_int ys) @ ''}''
                           | _ \<Rightarrow> [])
                    val)
         in ''new int[][]{'' @ inner @ ''}'')
      else if list_all is_str_list val then
        (let inner = join '', ''
               (map (\<lambda>x. case x of
                             PList ys \<Rightarrow>
                               ''new String[]{'' @ join '', '' (map java_literal ys) @ ''}''
                           | _ \<Rightarrow> [])
                    val)
         in ''new String[][]{'' @ inner @ ''}'')
      else ''null'')"
| "java_literal PNone = ''null''"

text \<open>
  How a process ended, read off its outcome: with exit status zero, or with another
  exit status (a timeout is neither).
\<close>

fun zero_exit :: "proc_outcome \<Rightarrow> bool" where
  "zero_exit Expired = False"
| "zero_exit (Completed rc out err) = (rc = 0)"

fun nonzero_exit :: "proc_outcome \<Rightarrow> bool" where
  "nonzero_exit Expired = False"
| "nonzero_exit (Completed rc out err) = (rc \<noteq> 0)"

text \<open>
  Whether \<^verbatim>\<open>.decode()\<close> succeeds on the streams of an outcome that the runners
  decode: both streams of an execution, stderr alone of a failed compilation.
\<close>

fun decodes :: "bytes \<Rightarrow> bool" where
  "decodes (Utf8 s) = True"
| "decodes NotUtf8 = False"

fun streams_decode :: "proc_outcome \<Rightarrow> bool" where
  "streams_decode Expired = True"
| "streams_decode (Completed rc out err) = (decodes out \<and> decodes err)"

fun diagnostics_decode :: "proc_outcome \<Rightarrow> bool" where
  "diagnostics_decode Expired = True"
| "diagnostics_decode (Completed rc out err) = (rc = 0 \<or> decodes err)"

text \<open>Exactly one of the listed conditions holds.\<close>

definition exactly_one :: "bool list \<Rightarrow> bool" where
  "exactly_one bs = (length (filter id bs) = 1)"

text \<open>
  A scripted operating system, for concrete runs: the \<open>k\<close>-th process started ends
  with the \<open>k\<close>-th outcome of the script (and times out once the script is used up).
\<close>

definition scripted :: "proc_outcome list \<Rightarrow> world" where
  "scripted outcomes tr cmd =
     (if length tr < length outcomes then outcomes ! length tr else Expired)"

section \<open>Notions used in the statements\<close>

text \<open>
  The four classes of a runner's result. \<open>e\<close> is the outcome of the process that
  executed the candidate.
\<close>

definition cls_compile_error :: "exec_result \<Rightarrow> bool" where
  "cls_compile_error r = (res_compile_error r = Some True)"

definition cls_timeout :: "exec_result \<Rightarrow> bool" where
  "cls_timeout r = (res_timeout r = Some True \<and> \<not> res_success r)"

definition cls_success :: "exec_result \<Rightarrow> bool" where
  "cls_success r = res_success r"

definition cls_failure :: "exec_result \<Rightarrow> proc_outcome \<Rightarrow> bool" where
  "cls_failure r e = (\<not> res_success r \<and> nonzero_exit e)"

text \<open>A detail that belongs to a test: it repeats the input and the trimmed expected output.\<close>

definition detail_of :: "detail \<Rightarrow> test_case \<Rightarrow> bool" where
  "detail_of d t = (det_input d = Some (get_input t) \<and>
                    det_expected d = Some (strip (get_output t)))"

text \<open>
  The diagnostic of a compilation that did not succeed, as \<^verbatim>\<open>cpp_runner.run\<close> reports
  it: a fixed text after a timeout, the compiler's stderr after an exit status other
  than zero (when it can be decoded).
\<close>

fun compile_diagnostic :: "proc_outcome \<Rightarrow> string option" where
  "compile_diagnostic Expired = Some ''Compilation timed out''"
| "compile_diagnostic (Completed rc out err) =
     (if rc \<noteq> 0 then (case err of Utf8 msg \<Rightarrow> Some msg | NotUtf8 \<Rightarrow> None) else None)"

text \<open>The number of compiler runs and of program runs in a trace.\<close>

fun is_compilation :: "command \<Rightarrow> bool" where
  "is_compilation (Gpp code) = True"
| "is_compilation cmd = False"

fun is_execution :: "command \<Rightarrow> bool" where
  "is_execution (AOut code inp) = True"
| "is_execution cmd = False"

definition compilations :: "trace \<Rightarrow> nat" where
  "compilations tr = length (filter is_compilation tr)"

definition executions :: "trace \<Rightarrow> nat" where
  "executions tr = length (filter is_execution tr)"

text \<open>
  The processes that the C++ runner starts for a list of tests that all compile: for
  each test, in their order, the compiler and then the program on the test's input.
\<close>

definition runs_of :: "string \<Rightarrow> test_case list \<Rightarrow> trace" where
  "runs_of code tests = concat (map (\<lambda>t. [Gpp code, AOut code (get_input t)]) tests)"

text \<open>The cases of a report that were handed to the runner.\<close>

definition cases_run :: "report \<Rightarrow> nat" where
  "cases_run r = length (filter (\<lambda>d. det_compile_error d \<noteq> None) (rep_details r))"

text \<open>
  A test and a structured case that \<^verbatim>\<open>parse_case\<close> built from it; a test from which
  no case can be built, because a key is absent or \<^verbatim>\<open>parse_case\<close> raises.
\<close>

definition parsed_as :: "int option \<Rightarrow> test_case \<Rightarrow> structured_case \<Rightarrow> bool" where
  "parsed_as problem_id t c =
     (case (tc_input t, tc_output t) of
        (Some raw_input, Some raw_output) \<Rightarrow>
          parse_case problem_id raw_input raw_output = Inr (sc_args c, sc_expected c)
      | _ \<Rightarrow> False)"

definition fails_to_parse :: "int option \<Rightarrow> test_case \<Rightarrow> bool" where
  "fails_to_parse problem_id t =
     (case (tc_input t, tc_output t) of
        (Some raw_input, Some raw_output) \<Rightarrow>
          (case parse_case problem_id raw_input raw_output of
             Inl e \<Rightarrow> True
           | Inr v \<Rightarrow> False)
      | _ \<Rightarrow> True)"



text \<open>
  A report that is well-formed for a list of tests: \<open>total\<close> is their number,
  \<open>details\<close> has one detail for each test, in their order, and \<open>passed\<close> counts
  the details that passed.
\<close>

definition well_formed :: "report \<Rightarrow> test_case list \<Rightarrow> bool" where
  "well_formed r tests =
     (rep_total r = length tests \<and>
      list_all2 detail_of (rep_details r) tests \<and>
      rep_passed r = length (filter det_passed (rep_details r)))"



text \<open>Concrete inputs for the runs evaluated below.\<close>

definition demo_tests :: "test_case list" where
  "demo_tests = [\<lparr>tc_input = Some ''abc'', tc_output = Some ''1''\<rparr>,
                 \<lparr>tc_input = Some ''x'', tc_output = Some ''2''\<rparr>]"

definition demo_problem :: problem where
  "demo_problem = \<lparr>pr_id = Some 2, pr_tests = Some demo_tests,
                    pr_method_signatures = Some [''python'' \<mapsto> ''def mirrorScore(s):'']\<rparr>"

definition demo_cpp :: string where
  "demo_cpp = ''int main(){return 1;}''"

text \<open>A compiler that succeeds, then the program, which exits with status 1.\<close>

definition demo_world :: world where
  "demo_world = scripted [Completed 0 (Utf8 []) (Utf8 []), Completed 1 (Utf8 []) (Utf8 [])]"

text \<open>A Python program that prints 1 whatever it reads, and two runs of it.\<close>

definition demo_py_one :: string where
  "demo_py_one = ''print(1)''"

definition demo_world_py :: world where
  "demo_world_py = scripted [Completed 0 (Utf8 (''1'' @ [CHR 0x0A])) (Utf8 []),
                             Completed 0 (Utf8 (''1'' @ [CHR 0x0A])) (Utf8 [])]"

text \<open>A source that does not compile, and a compiler that says so.\<close>

definition demo_broken_cpp :: string where
  "demo_broken_cpp = ''#include <bits/stdc++.h>'' @ [CHR 0x0A] @ ''int main( {''"

definition demo_world_broken :: world where
  "demo_world_broken = scripted [Completed 1 (Utf8 []) (Utf8 ''main.cpp:2:11: error'')]"

text \<open>
  A source that compiles and prints 1 for a word of two letters or more, 2 for a shorter
  one: each of its two runs prints the expected number.
\<close>

definition demo_good_cpp :: string where
  "demo_good_cpp =
     ''#include <bits/stdc++.h>'' @ [CHR 0x0A] @
     ''int main(){std::string s; std::cin >> s; std::cout << (s.size() < 2 ? 2 : 1);}''"

definition demo_world_good :: world where
  "demo_world_good = scripted [Completed 0 (Utf8 []) (Utf8 []), Completed 0 (Utf8 ''1'') (Utf8 []),
                               Completed 0 (Utf8 []) (Utf8 []), Completed 0 (Utf8 ''2'') (Utf8 [])]"

text \<open>
  A problem with a third test, and a machine under load: the first build and run go
  through, the second build exceeds the time limit.
\<close>

definition demo_problem_three :: problem where
  "demo_problem_three =
     \<lparr>pr_id = Some 2,
      pr_tests = Some (demo_tests @ [\<lparr>tc_input = Some ''zz'', tc_output = Some ''1''\<rparr>]),
      pr_method_signatures = None\<rparr>"

definition demo_world_stalled :: world where
  "demo_world_stalled =
     scripted [Completed 0 (Utf8 []) (Utf8 []), Completed 0 (Utf8 ''1'') (Utf8 []), Expired]"

text \<open>The same problem with an expected output that is no integer in its second test.\<close>

definition demo_problem_unparsable :: problem where
  "demo_problem_unparsable =
     \<lparr>pr_id = Some 2,
      pr_tests = Some [\<lparr>tc_input = Some ''abc'', tc_output = Some ''1''\<rparr>,
                       \<lparr>tc_input = Some ''x'', tc_output = Some ''two''\<rparr>],
      pr_method_signatures = Some [''python'' \<mapsto> ''def mirrorScore(s):'']\<rparr>"

text \<open>
  A harness whose import of the candidate's module raised: no result line, a traceback
  on stderr, exit status 1.
\<close>

definition demo_world_import_error :: world where
  "demo_world_import_error =
     scripted [Completed 1 (Utf8 []) (Utf8 ''ZeroDivisionError: division by zero'')]"


text \<open>
  The problem without its method signatures: the structured path raises
  \<^verbatim>\<open>ValueError("Missing function info")\<close> before it starts any process. Two
  candidates for it: one that prints the expected answers, and one that writes the
  byte 0xFF, which is no UTF-8, and exits with status 0.
\<close>

definition demo_problem_unsigned :: problem where
  "demo_problem_unsigned =
     \<lparr>pr_id = Some 2, pr_tests = Some demo_tests, pr_method_signatures = None\<rparr>"

definition demo_py_answer :: string where
  "demo_py_answer = ''print(1 + (len(input()) < 2))''"

definition demo_world_answer :: world where
  "demo_world_answer = scripted [Completed 0 (Utf8 (''1'' @ [CHR 0x0A])) (Utf8 []),
                                 Completed 0 (Utf8 (''2'' @ [CHR 0x0A])) (Utf8 [])]"

definition demo_py_garbling :: string where
  "demo_py_garbling = ''import os; os.write(1, bytes([255]))''"

definition demo_world_garbled :: world where
  "demo_world_garbled = scripted [Completed 0 NotUtf8 (Utf8 [])]"

definition idle_runner :: runner where
  "idle_runner code input_data tr =
     (Inr \<lparr>res_success = False, res_output = [], res_error = [],
           res_compile_error = None, res_timeout = None\<rparr>, tr)"

section \<open>Properties of the runners\<close>

lemma decode_Inr_iff: "decode b = Inr s \<longleftrightarrow> b = Utf8 s"
  by (cases b) auto

lemma decode_Inl_iff: "decode b = Inl e \<longleftrightarrow> b = NotUtf8 \<and> e = UnicodeDecodeError"
  by (cases b) auto

lemma cpp_run_returns:
  "(\<exists>r tr'. cpp_run w (Text code) (Text inp) tr = (Inr r, tr')) \<longleftrightarrow>
     diagnostics_decode (w tr (Gpp code)) \<and>
     (zero_exit (w tr (Gpp code)) \<longrightarrow> streams_decode (w (tr @ [Gpp code]) (AOut code inp)))"
  by (cases "w tr (Gpp code)"; cases "w (tr @ [Gpp code]) (AOut code inp)")
     (auto simp: cpp_run_def subprocess_run_def decode_Inr_iff decode_Inl_iff
           split: sum.splits)

lemma cpp_run_raises:
  "(\<exists>r tr'. cpp_run w (Text code) (Text inp) tr = (Inr r, tr')) \<or>
   (\<exists>tr'. cpp_run w (Text code) (Text inp) tr = (Inl UnicodeDecodeError, tr'))"
  by (cases "w tr (Gpp code)"; cases "w (tr @ [Gpp code]) (AOut code inp)")
     (auto simp: cpp_run_def subprocess_run_def decode_Inr_iff decode_Inl_iff
           split: sum.splits)

lemma cpp_run_classes:
  fixes w :: world and tr :: trace and code inp :: string
  assumes "cpp_run w (Text code) (Text inp) tr = (Inr r, tr')"
  defines "c \<equiv> w tr (Gpp code)" and "e \<equiv> w (tr @ [Gpp code]) (AOut code inp)"
  defines "CE \<equiv> res_compile_error r = Some True"
    and "TO \<equiv> res_timeout r = Some True \<and> \<not> res_success r"
    and "SU \<equiv> res_success r"
    and "FA \<equiv> \<not> res_success r \<and> zero_exit c \<and> nonzero_exit e"
  shows "(SU \<longrightarrow> zero_exit c \<and> zero_exit e)
       \<and> (exactly_one [CE, TO, SU, FA] \<or> (CE \<and> TO \<and> \<not> SU \<and> \<not> FA \<and> c = Expired))
       \<and> (CE \<longleftrightarrow> \<not> zero_exit c)
       \<and> (CE \<and> TO \<longleftrightarrow> c = Expired)
       \<and> (CE \<longrightarrow> tr' = tr @ [Gpp code])
       \<and> (\<not> CE \<longrightarrow> tr' = tr @ [Gpp code, AOut code inp] \<and> (TO \<longleftrightarrow> e = Expired))"
  using assms(1) unfolding c_def e_def CE_def TO_def SU_def FA_def
  by (cases "w tr (Gpp code)"; cases "w (tr @ [Gpp code]) (AOut code inp)")
     (auto simp: cpp_run_def subprocess_run_def exactly_one_def split: sum.splits if_splits)

text \<open>The ways in which the C++ runner raises, and the trace it leaves then.\<close>

lemma cpp_run_unencodable_code:
  "cpp_run w WithSurrogate any tr = (Inl UnicodeEncodeError, tr)"
  by (simp add: cpp_run_def)

lemma cpp_run_unencodable_input:
  "zero_exit (w tr (Gpp code)) \<Longrightarrow>
     cpp_run w (Text code) WithSurrogate tr = (Inl UnicodeEncodeError, tr @ [Gpp code])"
  by (cases "w tr (Gpp code)") (auto simp: cpp_run_def subprocess_run_def)

lemma cpp_run_input_unread:
  "\<not> zero_exit (w tr (Gpp code)) \<Longrightarrow>
     cpp_run w (Text code) any tr = cpp_run w (Text code) (Text inp) tr"
  by (cases "w tr (Gpp code)") (auto simp: cpp_run_def subprocess_run_def)

lemma cpp_run_undecodable_diagnostic:
  "\<not> diagnostics_decode (w tr (Gpp code)) \<Longrightarrow>
     cpp_run w (Text code) any tr = (Inl UnicodeDecodeError, tr @ [Gpp code])"
  by (cases "w tr (Gpp code)")
     (auto simp: cpp_run_def subprocess_run_def decode_Inl_iff split: sum.splits
           elim: decodes.elims)

lemma cpp_run_undecodable_stream:
  "zero_exit (w tr (Gpp code)) \<Longrightarrow> \<not> streams_decode (w (tr @ [Gpp code]) (AOut code inp)) \<Longrightarrow>
     cpp_run w (Text code) (Text inp) tr
       = (Inl UnicodeDecodeError, tr @ [Gpp code, AOut code inp])"
  by (cases "w tr (Gpp code)"; cases "w (tr @ [Gpp code]) (AOut code inp)")
     (auto simp: cpp_run_def subprocess_run_def decode_Inl_iff decode_Inr_iff
           split: sum.splits elim: decodes.elims)

lemma python_run_returns:
  "(\<exists>r tr'. python_run w (Text code) (Text inp) tr = (Inr r, tr')) \<longleftrightarrow>
     streams_decode (w tr (Python3 code inp))"
  by (cases "w tr (Python3 code inp)")
     (auto simp: python_run_def subprocess_run_def decode_Inr_iff decode_Inl_iff
           split: sum.splits)

lemma python_run_raises:
  "(\<exists>r tr'. python_run w (Text code) (Text inp) tr = (Inr r, tr')) \<or>
   (\<exists>tr'. python_run w (Text code) (Text inp) tr = (Inl UnicodeDecodeError, tr'))"
  by (cases "w tr (Python3 code inp)")
     (auto simp: python_run_def subprocess_run_def decode_Inr_iff decode_Inl_iff
           split: sum.splits)

lemma python_run_classes:
  assumes "python_run w (Text code) (Text inp) tr = (Inr r, tr')"
  shows "(res_success r \<longrightarrow> zero_exit (w tr (Python3 code inp)))
       \<and> exactly_one [res_compile_error r = Some True,
                      res_timeout r = Some True \<and> \<not> res_success r,
                      res_success r,
                      \<not> res_success r \<and> nonzero_exit (w tr (Python3 code inp))]
       \<and> res_compile_error r \<noteq> Some True
       \<and> tr' = tr @ [Python3 code inp]"
  using assms
  by (cases "w tr (Python3 code inp)")
     (auto simp: python_run_def subprocess_run_def exactly_one_def split: sum.splits)

lemma python_run_unencodable:
  "python_run w WithSurrogate any tr = (Inl UnicodeEncodeError, tr)"
  "python_run w (Text code) WithSurrogate tr = (Inl UnicodeEncodeError, tr)"
  by (simp_all add: python_run_def)

lemma python_run_undecodable_stream:
  "\<not> streams_decode (w tr (Python3 code inp)) \<Longrightarrow>
     python_run w (Text code) (Text inp) tr = (Inl UnicodeDecodeError, tr @ [Python3 code inp])"
  by (cases "w tr (Python3 code inp)")
     (auto simp: python_run_def subprocess_run_def decode_Inl_iff decode_Inr_iff
           split: sum.splits elim: decodes.elims)

text \<open>
  \<open>runner_classification\<close> (claim C4, as amended). Take an invocation of
  \<^verbatim>\<open>run\<close>; \<open>c\<close> is the outcome of the compiler, \<open>e\<close> the one of the compiled
  program and \<open>p\<close> the one of the interpreter.

  When the code and the input can be encoded and the streams that the runner decodes are
  valid UTF-8, \<^verbatim>\<open>run\<close> returns a result, and for that result: \<open>success\<close> holds only
  if the processes exited with status zero; exactly one of compile error, timeout without
  success, success and failure with another exit status holds, apart from the compile
  timeout, which sets both \<open>compile_error\<close> and \<open>timeout\<close> and is the only case
  that does; a compile error is reported exactly when the compiler did not exit with
  status zero, and then the trace ends with the compiler: nothing was executed. The
  Python runner never reports a compile error.

  In every other case \<^verbatim>\<open>run\<close> raises and returns no result. A code that cannot be
  encoded raises \<^verbatim>\<open>UnicodeEncodeError\<close> before any process is started; so does an input
  that cannot be encoded, for the Python runner before any process is started, for the
  C++ runner once the compilation has succeeded (after a compilation that failed the
  input is not looked at). A stream that is not valid UTF-8 raises
  \<^verbatim>\<open>UnicodeDecodeError\<close> after the process that wrote it.
\<close>

theorem runner_classification:
  fixes w :: world and tr :: trace and code inp :: string and any :: pystr
  defines "c \<equiv> w tr (Gpp code)"
    and "e \<equiv> w (tr @ [Gpp code]) (AOut code inp)"
    and "p \<equiv> w tr (Python3 code inp)"
  shows "(diagnostics_decode c \<and> (zero_exit c \<longrightarrow> streams_decode e) \<longrightarrow>
          (\<exists>r tr'. cpp_run w (Text code) (Text inp) tr = (Inr r, tr') \<and>
            (res_success r \<longrightarrow> zero_exit c \<and> zero_exit e) \<and>
            (exactly_one [cls_compile_error r, cls_timeout r, cls_success r,
                          zero_exit c \<and> cls_failure r e] \<or>
             (cls_compile_error r \<and> cls_timeout r \<and> \<not> cls_success r \<and> c = Expired)) \<and>
            (cls_compile_error r \<longleftrightarrow> \<not> zero_exit c) \<and>
            (cls_compile_error r \<and> cls_timeout r \<longleftrightarrow> c = Expired) \<and>
            tr' = (if cls_compile_error r then tr @ [Gpp code]
                   else tr @ [Gpp code, AOut code inp]))) \<and>
         (streams_decode p \<longrightarrow>
          (\<exists>r tr'. python_run w (Text code) (Text inp) tr = (Inr r, tr') \<and>
            (res_success r \<longrightarrow> zero_exit p) \<and>
            exactly_one [cls_compile_error r, cls_timeout r, cls_success r, cls_failure r p] \<and>
            \<not> cls_compile_error r \<and>
            tr' = tr @ [Python3 code inp])) \<and>
         cpp_run w WithSurrogate any tr = (Inl UnicodeEncodeError, tr) \<and>
         (zero_exit c \<longrightarrow>
            cpp_run w (Text code) WithSurrogate tr = (Inl UnicodeEncodeError, tr @ [Gpp code])) \<and>
         (\<not> zero_exit c \<longrightarrow>
            cpp_run w (Text code) any tr = cpp_run w (Text code) (Text inp) tr) \<and>
         (\<not> diagnostics_decode c \<longrightarrow>
            cpp_run w (Text code) any tr = (Inl UnicodeDecodeError, tr @ [Gpp code])) \<and>
         (zero_exit c \<and> \<not> streams_decode e \<longrightarrow>
            cpp_run w (Text code) (Text inp) tr
              = (Inl UnicodeDecodeError, tr @ [Gpp code, AOut code inp])) \<and>
         python_run w WithSurrogate any tr = (Inl UnicodeEncodeError, tr) \<and>
         python_run w (Text code) WithSurrogate tr = (Inl UnicodeEncodeError, tr) \<and>
         (\<not> streams_decode p \<longrightarrow>
            python_run w (Text code) (Text inp) tr
              = (Inl UnicodeDecodeError, tr @ [Python3 code inp]))"
proof -
  have cpp: "\<exists>r tr'. cpp_run w (Text code) (Text inp) tr = (Inr r, tr') \<and>
        (res_success r \<longrightarrow> zero_exit c \<and> zero_exit e) \<and>
        (exactly_one [cls_compile_error r, cls_timeout r, cls_success r,
                      zero_exit c \<and> cls_failure r e] \<or>
         (cls_compile_error r \<and> cls_timeout r \<and> \<not> cls_success r \<and> c = Expired)) \<and>
        (cls_compile_error r \<longleftrightarrow> \<not> zero_exit c) \<and>
        (cls_compile_error r \<and> cls_timeout r \<longleftrightarrow> c = Expired) \<and>
        tr' = (if cls_compile_error r then tr @ [Gpp code] else tr @ [Gpp code, AOut code inp])"
    if ok: "diagnostics_decode c \<and> (zero_exit c \<longrightarrow> streams_decode e)"
  proof -
    have "\<exists>r tr'. cpp_run w (Text code) (Text inp) tr = (Inr r, tr')"
      using ok unfolding c_def e_def by (simp add: cpp_run_returns)
    then obtain r tr' where run: "cpp_run w (Text code) (Text inp) tr = (Inr r, tr')"
      by blast
    have "(res_success r \<longrightarrow> zero_exit c \<and> zero_exit e) \<and>
        (exactly_one [cls_compile_error r, cls_timeout r, cls_success r,
                      zero_exit c \<and> cls_failure r e] \<or>
         (cls_compile_error r \<and> cls_timeout r \<and> \<not> cls_success r \<and> c = Expired)) \<and>
        (cls_compile_error r \<longleftrightarrow> \<not> zero_exit c) \<and>
        (cls_compile_error r \<and> cls_timeout r \<longleftrightarrow> c = Expired) \<and>
        tr' = (if cls_compile_error r then tr @ [Gpp code] else tr @ [Gpp code, AOut code inp])"
      using cpp_run_classes[OF run]
      unfolding c_def e_def cls_compile_error_def cls_timeout_def cls_success_def cls_failure_def
      by (auto simp: exactly_one_def)
    with run show ?thesis by blast
  qed
  have py: "\<exists>r tr'. python_run w (Text code) (Text inp) tr = (Inr r, tr') \<and>
        (res_success r \<longrightarrow> zero_exit p) \<and>
        exactly_one [cls_compile_error r, cls_timeout r, cls_success r, cls_failure r p] \<and>
        \<not> cls_compile_error r \<and> tr' = tr @ [Python3 code inp]"
    if ok: "streams_decode p"
  proof -
    have "\<exists>r tr'. python_run w (Text code) (Text inp) tr = (Inr r, tr')"
      using ok unfolding p_def by (simp add: python_run_returns)
    then obtain r2 tr2 where run2: "python_run w (Text code) (Text inp) tr = (Inr r2, tr2)"
      by blast
    have "(res_success r2 \<longrightarrow> zero_exit p) \<and>
        exactly_one [cls_compile_error r2, cls_timeout r2, cls_success r2, cls_failure r2 p] \<and>
        \<not> cls_compile_error r2 \<and> tr2 = tr @ [Python3 code inp]"
      using python_run_classes[OF run2]
      unfolding p_def cls_compile_error_def cls_timeout_def cls_success_def cls_failure_def
      by (auto simp: exactly_one_def split: if_splits)
    with run2 show ?thesis by blast
  qed
  note raises =
    cpp_run_unencodable_code[where w=w and any=any and tr=tr]
    cpp_run_unencodable_input[where w=w and tr=tr and code=code]
    cpp_run_input_unread[where w=w and tr=tr and code=code and any=any and inp=inp]
    cpp_run_undecodable_diagnostic[where w=w and tr=tr and code=code and any=any]
    cpp_run_undecodable_stream[where w=w and tr=tr and code=code and inp=inp]
    python_run_unencodable(1)[where w=w and any=any and tr=tr]
    python_run_unencodable(2)[where w=w and tr=tr and code=code]
    python_run_undecodable_stream[where w=w and tr=tr and code=code and inp=inp]
  show ?thesis
    using cpp py raises unfolding c_def e_def p_def
    by (intro conjI impI) blast+
qed

theorem runner_classification_witness:
  "diagnostics_decode (demo_world [] (Gpp demo_cpp)) \<and>
   zero_exit (demo_world [] (Gpp demo_cpp)) \<and>
   streams_decode (demo_world ([] @ [Gpp demo_cpp]) (AOut demo_cpp ''7'')) \<and>
   streams_decode (demo_world_py [] (Python3 demo_py_one ''7'')) \<and>
   (\<exists>r tr'. cpp_run demo_world (Text demo_cpp) (Text ''7'') [] = (Inr r, tr') \<and>
      \<not> res_success r \<and> \<not> cls_compile_error r \<and>
      cls_failure r (demo_world ([] @ [Gpp demo_cpp]) (AOut demo_cpp ''7'')) \<and>
      tr' = [Gpp demo_cpp, AOut demo_cpp ''7'']) \<and>
   (\<exists>r tr'. python_run demo_world_py (Text demo_py_one) (Text ''7'') [] = (Inr r, tr') \<and>
      exactly_one [cls_compile_error r, cls_timeout r, cls_success r,
                   cls_failure r (demo_world_py [] (Python3 demo_py_one ''7''))]) \<and>
   cpp_run demo_world WithSurrogate (Text ''7'') [] = (Inl UnicodeEncodeError, []) \<and>
   cpp_run demo_world (Text demo_cpp) WithSurrogate [] = (Inl UnicodeEncodeError, [Gpp demo_cpp]) \<and>
   cpp_run demo_world_broken (Text demo_broken_cpp) WithSurrogate []
     = cpp_run demo_world_broken (Text demo_broken_cpp) (Text ''7'') [] \<and>
   python_run demo_world_py (Text demo_py_one) WithSurrogate [] = (Inl UnicodeEncodeError, []) \<and>
   python_run demo_world_garbled (Text demo_py_garbling) (Text ''7'') []
     = (Inl UnicodeDecodeError, [Python3 demo_py_garbling ''7''])"
proof -
  note cpp = runner_classification[where w=demo_world and tr="[]" and code=demo_cpp
      and inp="''7''" and any="Text ''7''"]
  note py = runner_classification[where w=demo_world_py and tr="[]" and code=demo_py_one
      and inp="''7''" and any=WithSurrogate]
  note broken = runner_classification[where w=demo_world_broken and tr="[]"
      and code=demo_broken_cpp and inp="''7''" and any=WithSurrogate]
  note garbled = runner_classification[where w=demo_world_garbled and tr="[]"
      and code=demo_py_garbling and inp="''7''" and any=WithSurrogate]
  have h1: "diagnostics_decode (demo_world [] (Gpp demo_cpp))"
    by (simp add: demo_world_def scripted_def)
  have z: "zero_exit (demo_world [] (Gpp demo_cpp))"
    by (simp add: demo_world_def scripted_def)
  have h2: "streams_decode (demo_world ([] @ [Gpp demo_cpp]) (AOut demo_cpp ''7''))"
    by (simp add: demo_world_def scripted_def)
  have nz: "nonzero_exit (demo_world ([] @ [Gpp demo_cpp]) (AOut demo_cpp ''7''))"
    by (simp add: demo_world_def scripted_def)
  have k: "streams_decode (demo_world_py [] (Python3 demo_py_one ''7''))"
    by (simp add: demo_world_py_def scripted_def)
  have b: "\<not> zero_exit (demo_world_broken [] (Gpp demo_broken_cpp))"
    by (simp add: demo_world_broken_def scripted_def)
  have g: "\<not> streams_decode (demo_world_garbled [] (Python3 demo_py_garbling ''7''))"
    by (simp add: demo_world_garbled_def scripted_def)
  from cpp h1 h2 obtain r tr' where
    "cpp_run demo_world (Text demo_cpp) (Text ''7'') [] = (Inr r, tr')"
    "res_success r \<longrightarrow> zero_exit (demo_world ([] @ [Gpp demo_cpp]) (AOut demo_cpp ''7''))"
    "cls_compile_error r \<longleftrightarrow> \<not> zero_exit (demo_world [] (Gpp demo_cpp))"
    "tr' = (if cls_compile_error r then [] @ [Gpp demo_cpp]
            else [] @ [Gpp demo_cpp, AOut demo_cpp ''7''])"
    by blast
  with z nz have c1: "\<exists>r tr'. cpp_run demo_world (Text demo_cpp) (Text ''7'') [] = (Inr r, tr') \<and>
      \<not> res_success r \<and> \<not> cls_compile_error r \<and>
      cls_failure r (demo_world ([] @ [Gpp demo_cpp]) (AOut demo_cpp ''7'')) \<and>
      tr' = [Gpp demo_cpp, AOut demo_cpp ''7'']"
    by (cases "demo_world ([] @ [Gpp demo_cpp]) (AOut demo_cpp ''7'')")
       (auto simp: cls_failure_def)
  from py k
  have c2: "\<exists>r tr'. python_run demo_world_py (Text demo_py_one) (Text ''7'') [] = (Inr r, tr') \<and>
      exactly_one [cls_compile_error r, cls_timeout r, cls_success r,
                   cls_failure r (demo_world_py [] (Python3 demo_py_one ''7''))]"
    by blast
  from cpp have c4: "cpp_run demo_world WithSurrogate (Text ''7'') [] = (Inl UnicodeEncodeError, [])"
    by blast
  from cpp z
  have c5: "cpp_run demo_world (Text demo_cpp) WithSurrogate [] = (Inl UnicodeEncodeError, [Gpp demo_cpp])"
    by simp
  from broken b
  have c6: "cpp_run demo_world_broken (Text demo_broken_cpp) WithSurrogate []
     = cpp_run demo_world_broken (Text demo_broken_cpp) (Text ''7'') []"
    by blast
  from py
  have c7: "python_run demo_world_py (Text demo_py_one) WithSurrogate [] = (Inl UnicodeEncodeError, [])"
    by blast
  from garbled g
  have c8: "python_run demo_world_garbled (Text demo_py_garbling) (Text ''7'') []
     = (Inl UnicodeDecodeError, [Python3 demo_py_garbling ''7''])"
    by simp
  from h1 z h2 k c1 c2 c4 c5 c6 c7 c8 show ?thesis
    by (intro conjI)
qed

text \<open>
  Claim C4 as stated fails where a stream is not valid UTF-8: the program below exits
  with status zero, having written the byte 0xFF, and \<^verbatim>\<open>run\<close> raises
  \<^verbatim>\<open>UnicodeDecodeError\<close> instead of returning a result of one of the four classes.
\<close>

theorem runner_raises_on_undecodable_output:
  "python_run demo_world_garbled (Text demo_py_garbling) (Text []) [] =
     (Inl UnicodeDecodeError, [Python3 demo_py_garbling []])"
  by (simp add: python_run_def subprocess_run_def demo_world_garbled_def scripted_def)


section \<open>Properties of the stdin path\<close>

lemma skipped_detail_sel:
  "det_passed (skipped_detail t) = False"
  "det_compile_error (skipped_detail t) = None"
  "det_error (skipped_detail t) = ''Compilation failed''"
  by (simp_all add: skipped_detail_def)

lemma ran_detail_sel:
  "det_passed (ran_detail t res ec tp) = tp"
  "det_compile_error (ran_detail t res ec tp) = Some (res_compile_error res = Some True)"
  "det_error (ran_detail t res ec tp) = res_error res"
  by (auto simp: ran_detail_def split: option.splits)

lemma detail_of_skipped: "detail_of (skipped_detail t) t"
  by (simp add: skipped_detail_def detail_of_def)

lemma detail_of_ran: "detail_of (ran_detail t res (strip (get_output t)) tp) t"
  by (simp add: ran_detail_def detail_of_def)

text \<open>The loop over a list of tests is the loop over its first part, then over the rest.\<close>

lemma stdin_loop_append:
  "stdin_loop run c (xs @ ys) rs p cf tr =
     (case stdin_loop run c xs rs p cf tr of
        (Inl e, tr1) \<Rightarrow> (Inl e, tr1)
      | (Inr (rs1, p1, cf1), tr1) \<Rightarrow> stdin_loop run c ys rs1 p1 cf1 tr1)"
  by (induction xs arbitrary: rs p cf tr) (auto simp: Let_def split: prod.splits sum.splits)

text \<open>The step of the loop on a test that is run.\<close>

lemma stdin_loop_run_step:
  assumes "\<not> cf" and "run (Text c) (Text (get_input t)) tr = (Inr res, tr1)"
  shows "stdin_loop run c (t # ts) rs p cf tr =
           stdin_loop run c ts
             (rs @ [ran_detail t res (strip (get_output t))
                      (res_success res \<and> strip (res_output res) = strip (get_output t))])
             (if res_success res \<and> strip (res_output res) = strip (get_output t)
              then p + 1 else p)
             (res_compile_error res = Some True) tr1"
  using assms by (simp add: Let_def cong: if_cong)

text \<open>
  The loop only appends to \<open>results\<close>, one detail for each test and in the order of the
  tests, and counts the details that passed.
\<close>

lemma stdin_loop_details:
  assumes "stdin_loop run c tests rs p cf tr = (Inr (rs', p', cf'), tr')"
  shows "\<exists>ds. rs' = rs @ ds \<and> list_all2 detail_of ds tests \<and>
           p' = p + length (filter det_passed ds)"
  using assms
proof (induction tests arbitrary: rs p cf tr)
  case Nil
  then show ?case by simp
next
  case (Cons t ts)
  show ?case
  proof (cases cf)
    case True
    with Cons.prems
    have "stdin_loop run c ts (rs @ [skipped_detail t]) p cf tr = (Inr (rs', p', cf'), tr')"
      by simp
    from Cons.IH[OF this] obtain ds where
      "rs' = (rs @ [skipped_detail t]) @ ds" "list_all2 detail_of ds ts"
      "p' = p + length (filter det_passed ds)"
      by blast
    then show ?thesis
      by (intro exI[of _ "skipped_detail t # ds"]) (simp add: detail_of_skipped skipped_detail_sel)
  next
    case False
    with Cons.prems obtain res tr1 where r: "run (Text c) (Text (get_input t)) tr = (Inr res, tr1)"
      by (auto split: prod.splits sum.splits)
    define tp where "tp = (res_success res \<and> strip (res_output res) = strip (get_output t))"
    define d where "d = ran_detail t res (strip (get_output t)) tp"
    from Cons.prems have "stdin_loop run c ts (rs @ [d]) (if tp then p + 1 else p)
        (res_compile_error res = Some True) tr1 = (Inr (rs', p', cf'), tr')"
      unfolding stdin_loop_run_step[where run=run and c=c and t=t and tr=tr, OF False r] d_def tp_def .
    from Cons.IH[OF this] obtain ds where
      "rs' = (rs @ [d]) @ ds" "list_all2 detail_of ds ts"
      "p' = (if tp then p + 1 else p) + length (filter det_passed ds)"
      by blast
    then show ?thesis
      by (intro exI[of _ "d # ds"]) (auto simp: d_def detail_of_ran ran_detail_sel)
  qed
qed

text \<open>The detail of the first test of a loop: it passes only if the test is run.\<close>

lemma stdin_loop_step:
  assumes "stdin_loop run c (t # ts) rs p cf tr = (Inr (rs', p', cf'), tr')"
  shows "\<exists>d ds. rs' = rs @ d # ds \<and>
           (det_passed d \<longleftrightarrow> \<not> cf \<and>
              (\<exists>res tr2. run (Text c) (Text (get_input t)) tr = (Inr res, tr2) \<and> res_success res \<and>
                 strip (res_output res) = strip (get_output t)))"
proof (cases cf)
  case True
  with assms
  have "stdin_loop run c ts (rs @ [skipped_detail t]) p cf tr = (Inr (rs', p', cf'), tr')"
    by simp
  from stdin_loop_details[OF this] obtain ds where "rs' = (rs @ [skipped_detail t]) @ ds"
    by blast
  with True show ?thesis
    by (intro exI[of _ "skipped_detail t"] exI[of _ ds]) (simp add: skipped_detail_sel)
next
  case False
  with assms obtain res tr1 where r: "run (Text c) (Text (get_input t)) tr = (Inr res, tr1)"
    by (auto split: prod.splits sum.splits)
  define tp where "tp = (res_success res \<and> strip (res_output res) = strip (get_output t))"
  define d where "d = ran_detail t res (strip (get_output t)) tp"
  from assms have "stdin_loop run c ts (rs @ [d]) (if tp then p + 1 else p)
      (res_compile_error res = Some True) tr1 = (Inr (rs', p', cf'), tr')"
    unfolding stdin_loop_run_step[where run=run and c=c and t=t and tr=tr, OF False r] d_def tp_def .
  from stdin_loop_details[OF this] obtain ds where "rs' = (rs @ [d]) @ ds"
    by blast
  with False r show ?thesis
    by (intro exI[of _ d] exI[of _ ds]) (simp add: d_def tp_def ran_detail_sel)
qed

lemma stdin_grading_loop:
  assumes "stdin_grading (Some run) language c problem tr = (Inr (GradeReport r), tr')"
  shows "stdin_loop run c (get_tests problem) [] 0 False tr
           = (Inr (rep_details r, rep_passed r, rep_compile_error r), tr')"
    and "rep_total r = length (get_tests problem)"
  using assms
  by (auto simp: stdin_grading_def Let_def split: prod.splits sum.splits)

text \<open>
  In a report of the stdin path, take the test at position \<open>i\<close>. When the loop
  reaches it, having gone through the \<open>i\<close> tests before it, the compile-failure flag
  is \<open>compile_failure\<close> and the trace is \<open>tr_i\<close>. The detail at position \<open>i\<close>
  has \<open>passed\<close> true if and only if the test is run (no compile failure before it),
  the runner, started on the test's input, reports success, and its output, trimmed,
  equals the expected output, trimmed.
\<close>

lemma stdin_grading_passed_iff:
  assumes g: "stdin_grading (Some run) language prepared_code problem tr
                = (Inr (GradeReport r), tr')"
    and i: "i < length (get_tests problem)"
  shows "\<exists>results passed compile_failure tr_i.
           stdin_loop run prepared_code (take i (get_tests problem)) [] 0 False tr
             = (Inr (results, passed, compile_failure), tr_i) \<and>
           (det_passed (rep_details r ! i) \<longleftrightarrow>
              \<not> compile_failure \<and>
              (\<exists>res tr2.
                 run (Text prepared_code) (Text (get_input (get_tests problem ! i))) tr_i = (Inr res, tr2) \<and>
                 res_success res \<and>
                 strip (res_output res) = strip (get_output (get_tests problem ! i))))"
proof -
  define tests where "tests = get_tests problem"
  from stdin_grading_loop(1)[OF g] have loop: "stdin_loop run prepared_code tests [] 0 False tr
      = (Inr (rep_details r, rep_passed r, rep_compile_error r), tr')"
    by (simp add: tests_def)
  from i have split: "tests = take i tests @ (tests ! i # drop (Suc i) tests)"
    by (simp add: tests_def id_take_nth_drop)
  from loop obtain rs1 p1 cf1 tr1 where
    pre: "stdin_loop run prepared_code (take i tests) [] 0 False tr = (Inr (rs1, p1, cf1), tr1)"
    and post: "stdin_loop run prepared_code (tests ! i # drop (Suc i) tests) rs1 p1 cf1 tr1
      = (Inr (rep_details r, rep_passed r, rep_compile_error r), tr')"
    by (subst (asm) split, subst (asm) stdin_loop_append) (auto split: prod.splits sum.splits)
  from stdin_loop_details[OF pre] i have len: "length rs1 = i"
    by (auto simp: tests_def dest: list_all2_lengthD)
  from stdin_loop_step[OF post] obtain d ds where
    "rep_details r = rs1 @ d # ds"
    "det_passed d \<longleftrightarrow> \<not> cf1 \<and>
       (\<exists>res tr2. run (Text prepared_code) (Text (get_input (tests ! i))) tr1 = (Inr res, tr2) \<and>
          res_success res \<and> strip (res_output res) = strip (get_output (tests ! i)))"
    by blast
  moreover from this len have "rep_details r ! i = d"
    by (metis nth_append_length)
  ultimately show ?thesis
    using pre unfolding tests_def
    by (intro exI[of _ rs1] exI[of _ p1] exI[of _ cf1] exI[of _ tr1]) simp
qed

section \<open>Properties of the orchestrator\<close>

lemma RUNNERS_None_iff:
  "RUNNERS w java_run key = None \<longleftrightarrow>
     key \<notin> set [''python'', ''py'', ''java'', ''c++'', ''cpp'', ''c'']"
  by (simp add: RUNNERS_def)

lemma structured_attempt_NoneI:
  "lang_key \<notin> set [''java'', ''python''] \<Longrightarrow>
     structured_attempt w lang_key prepared_code problem tr = None"
  by (simp add: structured_attempt_def split: option.splits)

lemma grade_submission_stdin_only:
  assumes "lower (strip language) \<notin> set [''java'', ''python'']"
  shows "grade_submission w java_run language code problem tr =
           stdin_grading (RUNNERS w java_run (lower (strip language))) language
             (apply_language_boilerplate (lower (strip language)) code) problem tr"
  using structured_attempt_NoneI[OF assms] by (simp add: grade_submission_def Let_def)

lemma grade_submission_cpp:
  assumes "lower (strip language) \<in> set [''c++'', ''cpp'', ''c'']"
  shows "grade_submission w java_run language code problem tr =
           stdin_grading (Some (cpp_run w)) language
             (apply_language_boilerplate (lower (strip language)) code) problem tr"
proof -
  from assms have "lower (strip language) \<notin> set [''java'', ''python'']"
    by auto
  from grade_submission_stdin_only[OF this] assms show ?thesis
    by (auto simp: RUNNERS_def)
qed

text \<open>
  When the structured path gives no report, because it is not entered or because it
  raises, \<^verbatim>\<open>grade_submission\<close> is the stdin path, started on the trace that the
  structured path left.
\<close>

lemma grade_submission_without_report:
  assumes "structured_attempt w (lower (strip language))
             (apply_language_boilerplate (lower (strip language)) code) problem tr = None
           \<and> tr1 = tr \<or>
           structured_attempt w (lower (strip language))
             (apply_language_boilerplate (lower (strip language)) code) problem tr
             = Some (Inl e, tr1)"
  shows "grade_submission w java_run language code problem tr =
           stdin_grading (RUNNERS w java_run (lower (strip language))) language
             (apply_language_boilerplate (lower (strip language)) code) problem tr1"
  using assms by (auto simp: grade_submission_def Let_def)

text \<open>
  \<open>unsupported_language\<close> (claim C9). When the language, trimmed and in lower case,
  is none of the keys of \<^verbatim>\<open>RUNNERS\<close>, \<^verbatim>\<open>grade_submission\<close> returns the dict with
  the single key \<^verbatim>\<open>error\<close>, whose text names the language as it was given, and the
  trace is the one it started with: no process was run.
\<close>

theorem unsupported_language:
  assumes "lower (strip language) \<notin> set [''python'', ''py'', ''java'', ''c++'', ''cpp'', ''c'']"
  shows "grade_submission w java_run language code problem tr =
           (Inr (ErrorOnly (''Unsupported language: '' @ language)), tr)"
proof -
  from assms have "lower (strip language) \<notin> set [''java'', ''python'']"
    by auto
  from grade_submission_stdin_only[OF this] assms show ?thesis
    by (simp add: RUNNERS_def stdin_grading_def)
qed

theorem unsupported_language_witness:
  "lower (strip '' Ruby'') \<notin> set [''python'', ''py'', ''java'', ''c++'', ''cpp'', ''c''] \<and>
   grade_submission demo_world idle_runner '' Ruby'' ''puts 1'' demo_problem [] =
     (Inr (ErrorOnly ''Unsupported language:  Ruby''), [])"
proof -
  have h: "lower (strip '' Ruby'') \<notin> set [''python'', ''py'', ''java'', ''c++'', ''cpp'', ''c'']"
    by (simp add: lower_def lower_char_def lower_table_def strip_def isspace_def)
  from unsupported_language[OF h, of demo_world idle_runner "''puts 1''" demo_problem "[]"] h
  show ?thesis by simp
qed

subsection \<open>Compile failures\<close>

lemma stdin_loop_after_failure:
  "stdin_loop run c tests rs p True tr = (Inr (rs @ map skipped_detail tests, p, True), tr)"
  by (induction tests arbitrary: rs) simp_all

lemma cpp_run_compile_failure:
  assumes "compile_diagnostic (w tr (Gpp code)) = Some diag"
  shows "cpp_run w (Text code) (Text inp) tr =
           (Inr \<lparr>res_success = False, res_output = [], res_error = diag,
                 res_compile_error = Some True,
                 res_timeout = (if w tr (Gpp code) = Expired then Some True else None)\<rparr>,
            tr @ [Gpp code])"
  using assms
  by (cases "w tr (Gpp code)")
     (auto simp: cpp_run_def subprocess_run_def split: if_splits bytes.splits)

text \<open>
  \<open>compile_failure_report\<close> (claim C5, as amended). A submission in \<^verbatim>\<open>c++\<close>,
  \<^verbatim>\<open>cpp\<close> or \<^verbatim>\<open>c\<close> on a problem with at least one test, whose compilation fails
  with a diagnostic that can be decoded: the report has \<open>compile_error\<close> true and no
  case passed; the detail of the first test carries the diagnostic, and every later
  detail is the one with the fixed text \<^verbatim>\<open>Compilation failed\<close>; the trace grows by the
  single compiler run, so nothing was executed.
\<close>

theorem compile_failure_report:
  fixes w :: world and language code :: string
  defines "prepared \<equiv> apply_language_boilerplate (lower (strip language)) code"
  assumes lang: "lower (strip language) \<in> set [''c++'', ''cpp'', ''c'']"
    and tests: "get_tests problem = t # ts"
    and fail: "compile_diagnostic (w tr (Gpp prepared)) = Some diag"
  shows "\<exists>first.
           grade_submission w java_run language code problem tr =
             (Inr (GradeReport \<lparr>rep_passed = 0, rep_total = Suc (length ts),
                                rep_details = first # map skipped_detail ts,
                                rep_compile_error = True\<rparr>),
              tr @ [Gpp prepared]) \<and>
           detail_of first t \<and> det_error first = diag \<and> \<not> det_passed first \<and>
           det_compile_error first = Some True \<and>
           list_all (\<lambda>d. det_error d = ''Compilation failed'' \<and> \<not> det_passed d)
             (map skipped_detail ts) \<and>
           executions (tr @ [Gpp prepared]) = executions tr"
proof -
  let ?res = "\<lparr>res_success = False, res_output = [], res_error = diag,
                res_compile_error = Some True,
                res_timeout = (if w tr (Gpp prepared) = Expired then Some True else None)\<rparr>"
  let ?first = "ran_detail t ?res (strip (get_output t)) False"
  have run: "cpp_run w (Text prepared) (Text (get_input t)) tr = (Inr ?res, tr @ [Gpp prepared])"
    by (rule cpp_run_compile_failure[where w=w and tr=tr and code=prepared, OF fail])
  have "stdin_loop (cpp_run w) prepared (t # ts) [] 0 False tr =
          (Inr ([?first] @ map skipped_detail ts, 0, True), tr @ [Gpp prepared])"
    by (subst stdin_loop_run_step[where run="cpp_run w" and tr=tr, OF _ run])
       (simp_all add: stdin_loop_after_failure)
  then have "grade_submission w java_run language code problem tr =
      (Inr (GradeReport \<lparr>rep_passed = 0, rep_total = Suc (length ts),
                         rep_details = ?first # map skipped_detail ts,
                         rep_compile_error = True\<rparr>),
       tr @ [Gpp prepared])"
    using grade_submission_cpp[OF lang] tests
    by (simp add: stdin_grading_def prepared_def)
  moreover have "detail_of ?first t"
    by (rule detail_of_ran)
  moreover have "list_all (\<lambda>d. det_error d = ''Compilation failed'' \<and> \<not> det_passed d)
      (map skipped_detail ts)"
    by (simp add: list_all_iff skipped_detail_sel)
  moreover have "executions (tr @ [Gpp prepared]) = executions tr"
    by (simp add: executions_def)
  ultimately show ?thesis
    by (intro exI[of _ ?first]) (simp add: ran_detail_sel)
qed


theorem compile_failure_report_witness:
  "lower (strip ''cpp'') \<in> set [''c++'', ''cpp'', ''c''] \<and>
   get_tests demo_problem = demo_tests ! 0 # [demo_tests ! 1] \<and>
   compile_diagnostic
     (demo_world_broken []
        (Gpp (apply_language_boilerplate (lower (strip ''cpp'')) demo_broken_cpp)))
     = Some ''main.cpp:2:11: error'' \<and>
   (\<exists>first.
      grade_submission demo_world_broken idle_runner ''cpp'' demo_broken_cpp demo_problem [] =
        (Inr (GradeReport \<lparr>rep_passed = 0, rep_total = 2,
                           rep_details = first # map skipped_detail [demo_tests ! 1],
                           rep_compile_error = True\<rparr>),
         [Gpp demo_broken_cpp]) \<and>
      det_error first = ''main.cpp:2:11: error'' \<and> \<not> det_passed first)"
proof -
  have prep: "apply_language_boilerplate (lower (strip ''cpp'')) demo_broken_cpp = demo_broken_cpp"
    by (simp add: apply_language_boilerplate_def ensure_cpp_includes_def CPP_INCLUDE_LINE_def
          demo_broken_cpp_def lower_def lower_char_def lower_table_def strip_def isspace_def)
  have h1: "lower (strip ''cpp'') \<in> set [''c++'', ''cpp'', ''c'']"
    by (simp add: lower_def lower_char_def lower_table_def strip_def isspace_def)
  have h2: "get_tests demo_problem = demo_tests ! 0 # [demo_tests ! 1]"
    by (simp add: get_tests_def demo_problem_def demo_tests_def)
  have h3: "compile_diagnostic
     (demo_world_broken []
        (Gpp (apply_language_boilerplate (lower (strip ''cpp'')) demo_broken_cpp)))
     = Some ''main.cpp:2:11: error''"
    by (simp add: demo_world_broken_def scripted_def)
  from compile_failure_report[where w=demo_world_broken and tr="[]" and language="''cpp''"
      and code=demo_broken_cpp and problem=demo_problem and java_run=idle_runner,
      OF h1 h2 h3]
  have "\<exists>first.
      grade_submission demo_world_broken idle_runner ''cpp'' demo_broken_cpp demo_problem [] =
        (Inr (GradeReport \<lparr>rep_passed = 0, rep_total = 2,
                           rep_details = first # map skipped_detail [demo_tests ! 1],
                           rep_compile_error = True\<rparr>),
         [Gpp demo_broken_cpp]) \<and>
      det_error first = ''main.cpp:2:11: error'' \<and> \<not> det_passed first"
    unfolding prep by auto
  with h1 h2 h3 show ?thesis
    by (intro conjI)
qed

text \<open>
  Claim C5 as stated fails on the second test of a problem: its detail carries the
  text \<^verbatim>\<open>Compilation failed\<close>, not the compiler's diagnostic.
\<close>

theorem later_details_without_diagnostic:
  "grade_submission demo_world_broken idle_runner ''cpp'' demo_broken_cpp demo_problem [] =
     (Inr (GradeReport
        \<lparr>rep_passed = 0, rep_total = 2,
         rep_details =
           [\<lparr>det_input = Some ''abc'', det_expected = Some ''1'', det_output = Some [],
             det_error = ''main.cpp:2:11: error'', det_passed = False,
             det_compile_error = Some True, det_timeout = Some False\<rparr>,
            \<lparr>det_input = Some ''x'', det_expected = Some ''2'', det_output = Some [],
             det_error = ''Compilation failed'', det_passed = False,
             det_compile_error = None, det_timeout = None\<rparr>],
         rep_compile_error = True\<rparr>),
      [Gpp demo_broken_cpp])"
  by code_simp

subsection \<open>Compilations of one grading call\<close>

lemma cpp_run_counts:
  assumes "cpp_run w (Text c) (Text inp) tr = (Inr res, tr1)"
  shows "compilations tr1 = Suc (compilations tr)"
    and "executions tr1 = (if res_compile_error res = Some True then executions tr
                           else Suc (executions tr))"
  using assms
  by (cases "w tr (Gpp c)"; cases "w (tr @ [Gpp c]) (AOut c inp)";
      auto simp: cpp_run_def subprocess_run_def compilations_def executions_def
        split: if_splits sum.splits)+

lemma stdin_loop_flag:
  assumes "stdin_loop run c tests rs p cf tr = (Inr (rs', p', cf'), tr')" and "cf"
  shows "cf'"
  using assms by (simp add: stdin_loop_after_failure)

text \<open>
  With the C++ runner, the loop starts the compiler once for every test that it hands to
  the runner, and the program once for every test whose compilation succeeded; when no
  compilation failed, every test was handed to the runner.
\<close>

lemma stdin_loop_cpp_counts:
  assumes "stdin_loop (cpp_run w) c tests rs p cf tr = (Inr (rs', p', cf'), tr')"
  shows "\<exists>ds. rs' = rs @ ds \<and>
           compilations tr' =
             compilations tr + length (filter (\<lambda>d. det_compile_error d \<noteq> None) ds) \<and>
           executions tr' =
             executions tr + length (filter (\<lambda>d. det_compile_error d = Some False) ds) \<and>
           (\<not> cf' \<longrightarrow> length (filter (\<lambda>d. det_compile_error d \<noteq> None) ds) = length tests)"
  using assms
proof (induction tests arbitrary: rs p cf tr)
  case Nil
  then show ?case by simp
next
  case (Cons t ts)
  show ?case
  proof (cases cf)
    case True
    with Cons.prems show ?thesis
      by (intro exI[of _ "map skipped_detail (t # ts)"])
         (auto simp: stdin_loop_after_failure skipped_detail_sel filter_empty_conv)
  next
    case False
    with Cons.prems obtain res tr1 where r: "cpp_run w (Text c) (Text (get_input t)) tr = (Inr res, tr1)"
      by (auto split: prod.splits sum.splits)
    define tp where "tp = (res_success res \<and> strip (res_output res) = strip (get_output t))"
    define d where "d = ran_detail t res (strip (get_output t)) tp"
    from Cons.prems have "stdin_loop (cpp_run w) c ts (rs @ [d]) (if tp then p + 1 else p)
        (res_compile_error res = Some True) tr1 = (Inr (rs', p', cf'), tr')"
      unfolding stdin_loop_run_step[where run="cpp_run w" and c=c and t=t and tr=tr, OF False r]
        d_def tp_def .
    from Cons.IH[OF this] obtain ds where ds:
      "rs' = (rs @ [d]) @ ds"
      "compilations tr' =
         compilations tr1 + length (filter (\<lambda>d. det_compile_error d \<noteq> None) ds)"
      "executions tr' =
         executions tr1 + length (filter (\<lambda>d. det_compile_error d = Some False) ds)"
      "\<not> cf' \<longrightarrow> length (filter (\<lambda>d. det_compile_error d \<noteq> None) ds) = length ts"
      by blast
    from ds cpp_run_counts[OF r] show ?thesis
      by (intro exI[of _ "d # ds"]) (auto simp: d_def ran_detail_sel)
  qed
qed

text \<open>
  The trace that the loop leaves with the C++ runner: a build and a run for each of the
  first \<open>j\<close> tests, then the one build that failed, if one did. The details of the
  tests that were handed to the runner come first, a failed build being the last of them;
  the tests after it have the detail of a skipped test.
\<close>

lemma stdin_loop_cpp_trace:
  assumes "stdin_loop (cpp_run w) c tests rs p False tr = (Inr (rs', p', cf'), tr')"
  shows "\<exists>j ran. j \<le> length tests \<and>
           tr' = tr @ runs_of c (take j tests) @ (if cf' then [Gpp c] else []) \<and>
           (if cf' then j < length tests else j = length tests) \<and>
           rs' = rs @ ran @ map skipped_detail (drop (length ran) tests) \<and>
           length ran = (if cf' then Suc j else j) \<and>
           list_all (\<lambda>d. det_compile_error d = Some False) (take j ran) \<and>
           (cf' \<longrightarrow> det_compile_error (ran ! j) = Some True)"
  using assms
proof (induction tests arbitrary: rs p tr)
  case Nil
  then show ?case by (auto simp: runs_of_def)
next
  case (Cons t ts)
  from Cons.prems obtain res tr1 where
    r: "cpp_run w (Text c) (Text (get_input t)) tr = (Inr res, tr1)"
    by (auto split: prod.splits sum.splits)
  define tp where "tp = (res_success res \<and> strip (res_output res) = strip (get_output t))"
  define d where "d = ran_detail t res (strip (get_output t)) tp"
  have nf: "\<not> False" by simp
  from Cons.prems have loop: "stdin_loop (cpp_run w) c ts (rs @ [d]) (if tp then p + 1 else p)
      (res_compile_error res = Some True) tr1 = (Inr (rs', p', cf'), tr')"
    unfolding stdin_loop_run_step[where run="cpp_run w" and c=c and t=t and tr=tr, OF nf r]
      d_def tp_def .
  note cls = cpp_run_classes[OF r]
  show ?case
  proof (cases "res_compile_error res = Some True")
    case True
    with loop have "rs' = (rs @ [d]) @ map skipped_detail ts" "cf'" "tr' = tr1"
      by (simp_all add: stdin_loop_after_failure)
    moreover from cls True have "tr1 = tr @ [Gpp c]" by simp
    ultimately show ?thesis
      using True
      by (intro exI[of _ 0] exI[of _ "[d]"]) (simp add: runs_of_def d_def ran_detail_sel)
  next
    case False
    with cls have tr1: "tr1 = tr @ [Gpp c, AOut c (get_input t)]" by simp
    from loop False have "stdin_loop (cpp_run w) c ts (rs @ [d]) (if tp then p + 1 else p)
      False tr1 = (Inr (rs', p', cf'), tr')" by simp
    from Cons.IH[OF this] obtain j ran where IH:
      "j \<le> length ts"
      "tr' = tr1 @ runs_of c (take j ts) @ (if cf' then [Gpp c] else [])"
      "if cf' then j < length ts else j = length ts"
      "rs' = (rs @ [d]) @ ran @ map skipped_detail (drop (length ran) ts)"
      "length ran = (if cf' then Suc j else j)"
      "list_all (\<lambda>d. det_compile_error d = Some False) (take j ran)"
      "cf' \<longrightarrow> det_compile_error (ran ! j) = Some True"
      by blast
    have dF: "det_compile_error d = Some False"
      using False by (simp add: d_def ran_detail_sel)
    from IH tr1 dF show ?thesis
      by (intro exI[of _ "Suc j"] exI[of _ "d # ran"])
         (auto simp: runs_of_def split: if_splits)
  qed
qed

text \<open>
  \<open>one_compilation_per_case\<close> (claim C6, as amended). In a grading call for
  \<^verbatim>\<open>c++\<close>, \<^verbatim>\<open>cpp\<close> or \<^verbatim>\<open>c\<close> that returns a report, the compiler is started once
  for every test that is handed to the runner, and the program once for every test
  whose own compilation succeeded: no build is used for two tests. When the report's
  \<open>compile_error\<close> is false, every test was handed to the runner, so the code was
  compiled as many times as the problem has tests.

  After a compile failure nothing more is started. The trace grows by a build and a run
  for each of the first \<open>j\<close> tests, in their order, and then, when the report's
  \<open>compile_error\<close> is true, by the one build that failed, which is the last process
  of the call. The details of the first \<open>j\<close> tests say that their build succeeded, the
  detail of the test at position \<open>j\<close> says that its build failed, and every test
  after it has the detail of a test that was skipped, not handed to the runner.
\<close>

theorem one_compilation_per_case:
  fixes w :: world and language code :: string
  defines "prepared \<equiv> apply_language_boilerplate (lower (strip language)) code"
  assumes lang: "lower (strip language) \<in> set [''c++'', ''cpp'', ''c'']"
    and g: "grade_submission w java_run language code problem tr = (Inr (GradeReport r), tr')"
  shows "compilations tr' = compilations tr + cases_run r \<and>
         executions tr' =
           executions tr + length (filter (\<lambda>d. det_compile_error d = Some False) (rep_details r)) \<and>
         (\<not> rep_compile_error r \<longrightarrow> cases_run r = length (get_tests problem)) \<and>
         (\<exists>j. j \<le> length (get_tests problem) \<and>
              tr' = tr @ runs_of prepared (take j (get_tests problem)) @
                      (if rep_compile_error r then [Gpp prepared] else []) \<and>
              (if rep_compile_error r then j < length (get_tests problem)
               else j = length (get_tests problem)) \<and>
              cases_run r = (if rep_compile_error r then Suc j else j) \<and>
              list_all (\<lambda>d. det_compile_error d = Some False) (take j (rep_details r)) \<and>
              (rep_compile_error r \<longrightarrow> det_compile_error (rep_details r ! j) = Some True) \<and>
              drop (cases_run r) (rep_details r) =
                map skipped_detail (drop (cases_run r) (get_tests problem)))"
proof -
  from g have sg: "stdin_grading (Some (cpp_run w)) language prepared problem tr
        = (Inr (GradeReport r), tr')"
    by (simp add: grade_submission_cpp[OF lang] prepared_def)
  note loop = stdin_grading_loop(1)[OF sg]
  from stdin_loop_cpp_counts[OF loop]
  have counts: "compilations tr' = compilations tr + cases_run r"
    "executions tr' =
       executions tr + length (filter (\<lambda>d. det_compile_error d = Some False) (rep_details r))"
    "\<not> rep_compile_error r \<longrightarrow> cases_run r = length (get_tests problem)"
    by (auto simp: cases_run_def)
  from stdin_loop_cpp_trace[OF loop] obtain j ran where tr:
    "j \<le> length (get_tests problem)"
    "tr' = tr @ runs_of prepared (take j (get_tests problem)) @
             (if rep_compile_error r then [Gpp prepared] else [])"
    "if rep_compile_error r then j < length (get_tests problem)
     else j = length (get_tests problem)"
    "rep_details r = ran @ map skipped_detail (drop (length ran) (get_tests problem))"
    "length ran = (if rep_compile_error r then Suc j else j)"
    "list_all (\<lambda>d. det_compile_error d = Some False) (take j ran)"
    "rep_compile_error r \<longrightarrow> det_compile_error (ran ! j) = Some True"
    by auto
  have some: "list_all (\<lambda>d. det_compile_error d \<noteq> None) ran"
  proof -
    have "det_compile_error (ran ! i) \<noteq> None" if "i < length ran" for i
    proof (cases "i < j")
      case True
      with tr(6) that have "det_compile_error (take j ran ! i) = Some False"
        by (simp add: list_all_length)
      with True show ?thesis by simp
    next
      case False
      with that tr(5) have "i = j" "rep_compile_error r"
        by (auto split: if_splits)
      with tr(7) show ?thesis by simp
    qed
    then show ?thesis by (simp add: list_all_length)
  qed
  have run: "cases_run r = length ran"
    unfolding cases_run_def
    by (subst tr(4)) (use some in \<open>simp add: list_all_iff skipped_detail_sel o_def
          filter_empty_conv\<close>)
  have le: "j \<le> length ran"
    using tr(5) by (simp split: if_splits)
  have a: "take j (rep_details r) = take j ran"
    by (subst tr(4)) (use le in simp)
  have b: "rep_compile_error r \<longrightarrow> rep_details r ! j = ran ! j"
    by (subst tr(4)) (use tr(5) in \<open>simp add: nth_append\<close>)
  have c: "drop (cases_run r) (rep_details r) =
      map skipped_detail (drop (cases_run r) (get_tests problem))"
    unfolding run by (subst tr(4)) simp
  from tr(1-3) tr(5-7) run a b c
  have "\<exists>j. j \<le> length (get_tests problem) \<and>
              tr' = tr @ runs_of prepared (take j (get_tests problem)) @
                      (if rep_compile_error r then [Gpp prepared] else []) \<and>
              (if rep_compile_error r then j < length (get_tests problem)
               else j = length (get_tests problem)) \<and>
              cases_run r = (if rep_compile_error r then Suc j else j) \<and>
              list_all (\<lambda>d. det_compile_error d = Some False) (take j (rep_details r)) \<and>
              (rep_compile_error r \<longrightarrow> det_compile_error (rep_details r ! j) = Some True) \<and>
              drop (cases_run r) (rep_details r) =
                map skipped_detail (drop (cases_run r) (get_tests problem))"
    by (intro exI[of _ j]) simp
  with counts show ?thesis
    by (intro conjI)
qed

theorem one_compilation_per_case_witness:
  "lower (strip ''cpp'') \<in> set [''c++'', ''cpp'', ''c''] \<and>
   (\<exists>r tr'. grade_submission demo_world_good idle_runner ''cpp'' demo_good_cpp demo_problem []
               = (Inr (GradeReport r), tr') \<and>
            \<not> rep_compile_error r \<and>
            compilations tr' = compilations [] + cases_run r \<and>
            cases_run r = length (get_tests demo_problem) \<and>
            compilations tr' = 2) \<and>
   (\<exists>r tr'. grade_submission demo_world_stalled idle_runner ''cpp'' demo_good_cpp
                 demo_problem_three []
               = (Inr (GradeReport r), tr') \<and>
            rep_compile_error r \<and>
            tr' = [Gpp demo_good_cpp, AOut demo_good_cpp ''abc'', Gpp demo_good_cpp] \<and>
            compilations tr' = compilations [] + cases_run r \<and>
            cases_run r = 2 \<and>
            length (get_tests demo_problem_three) = 3 \<and>
            drop (cases_run r) (rep_details r) =
              map skipped_detail (drop (cases_run r) (get_tests demo_problem_three)))"
proof -
  let ?r = "\<lparr>rep_passed = 2, rep_total = 2,
         rep_details =
           [\<lparr>det_input = Some ''abc'', det_expected = Some ''1'', det_output = Some ''1'',
             det_error = [], det_passed = True,
             det_compile_error = Some False, det_timeout = Some False\<rparr>,
            \<lparr>det_input = Some ''x'', det_expected = Some ''2'', det_output = Some ''2'',
             det_error = [], det_passed = True,
             det_compile_error = Some False, det_timeout = Some False\<rparr>],
         rep_compile_error = False\<rparr>"
  let ?s = "\<lparr>rep_passed = 1, rep_total = 3,
         rep_details =
           [\<lparr>det_input = Some ''abc'', det_expected = Some ''1'', det_output = Some ''1'',
             det_error = [], det_passed = True,
             det_compile_error = Some False, det_timeout = Some False\<rparr>,
            \<lparr>det_input = Some ''x'', det_expected = Some ''2'', det_output = Some [],
             det_error = ''Compilation timed out'', det_passed = False,
             det_compile_error = Some True, det_timeout = Some True\<rparr>,
            \<lparr>det_input = Some ''zz'', det_expected = Some ''1'', det_output = Some [],
             det_error = ''Compilation failed'', det_passed = False,
             det_compile_error = None, det_timeout = None\<rparr>],
         rep_compile_error = True\<rparr>"
  have h1: "lower (strip ''cpp'') \<in> set [''c++'', ''cpp'', ''c'']"
    by (simp add: lower_def lower_char_def lower_table_def strip_def isspace_def)
  have g: "grade_submission demo_world_good idle_runner ''cpp'' demo_good_cpp demo_problem [] =
     (Inr (GradeReport ?r),
      [Gpp demo_good_cpp, AOut demo_good_cpp ''abc'', Gpp demo_good_cpp, AOut demo_good_cpp ''x''])"
    by code_simp
  have n: "length (get_tests demo_problem) = 2"
    by (simp add: get_tests_def demo_problem_def demo_tests_def)
  let ?T = "[Gpp demo_good_cpp, AOut demo_good_cpp ''abc'',
             Gpp demo_good_cpp, AOut demo_good_cpp ''x'']"
  have c: "compilations ?T = 2"
    by (simp add: compilations_def)
  have e: "\<not> rep_compile_error ?r"
    by simp
  from one_compilation_per_case[OF h1 g] e
  have k: "compilations ?T = compilations [] + cases_run ?r"
    "cases_run ?r = length (get_tests demo_problem)"
    by blast+
  have first: "\<exists>r tr'. grade_submission demo_world_good idle_runner ''cpp'' demo_good_cpp demo_problem []
               = (Inr (GradeReport r), tr') \<and>
            \<not> rep_compile_error r \<and>
            compilations tr' = compilations [] + cases_run r \<and>
            cases_run r = length (get_tests demo_problem) \<and>
            compilations tr' = 2"
    using g e k c by (intro exI[of _ ?r] exI[of _ ?T] conjI)
  let ?U = "[Gpp demo_good_cpp, AOut demo_good_cpp ''abc'', Gpp demo_good_cpp]"
  have g2: "grade_submission demo_world_stalled idle_runner ''cpp'' demo_good_cpp
      demo_problem_three [] = (Inr (GradeReport ?s), ?U)"
    by code_simp
  have n3: "length (get_tests demo_problem_three) = 3"
    by (simp add: get_tests_def demo_problem_three_def demo_tests_def)
  have cr: "cases_run ?s = 2"
    by code_simp
  have ce: "rep_compile_error ?s"
    by simp
  from one_compilation_per_case[OF h1 g2]
  have k2: "compilations ?U = compilations [] + cases_run ?s"
    "drop (cases_run ?s) (rep_details ?s) =
       map skipped_detail (drop (cases_run ?s) (get_tests demo_problem_three))"
    by blast+
  have second: "\<exists>r tr'. grade_submission demo_world_stalled idle_runner ''cpp'' demo_good_cpp
                 demo_problem_three []
               = (Inr (GradeReport r), tr') \<and>
            rep_compile_error r \<and>
            tr' = [Gpp demo_good_cpp, AOut demo_good_cpp ''abc'', Gpp demo_good_cpp] \<and>
            compilations tr' = compilations [] + cases_run r \<and>
            cases_run r = 2 \<and>
            length (get_tests demo_problem_three) = 3 \<and>
            drop (cases_run r) (rep_details r) =
              map skipped_detail (drop (cases_run r) (get_tests demo_problem_three))"
    using g2 ce k2 cr n3 by (intro exI[of _ ?s] exI[of _ ?U] conjI) simp_all
  from h1 first second show ?thesis
    by (intro conjI)
qed

text \<open>
  Claim C6 as stated fails on a problem with two tests: the source is compiled twice,
  once before each run.
\<close>

theorem compiled_for_every_case:
  "grade_submission demo_world_good idle_runner ''cpp'' demo_good_cpp demo_problem [] =
     (Inr (GradeReport
        \<lparr>rep_passed = 2, rep_total = 2,
         rep_details =
           [\<lparr>det_input = Some ''abc'', det_expected = Some ''1'', det_output = Some ''1'',
             det_error = [], det_passed = True,
             det_compile_error = Some False, det_timeout = Some False\<rparr>,
            \<lparr>det_input = Some ''x'', det_expected = Some ''2'', det_output = Some ''2'',
             det_error = [], det_passed = True,
             det_compile_error = Some False, det_timeout = Some False\<rparr>],
         rep_compile_error = False\<rparr>),
      [Gpp demo_good_cpp, AOut demo_good_cpp ''abc'',
       Gpp demo_good_cpp, AOut demo_good_cpp ''x'']) \<and>
   compilations [Gpp demo_good_cpp, AOut demo_good_cpp ''abc'',
                 Gpp demo_good_cpp, AOut demo_good_cpp ''x''] = 2"
  by code_simp


section \<open>Properties of the structured path\<close>

text \<open>
  \<open>python_compile_error_flag\<close> (claim C10). A report of
  \<^verbatim>\<open>grade_structured_python\<close> comes from a harness process that ended within its
  time limit, and its \<open>compile_error\<close> is true if and only if the exit status of that
  process is not zero.
\<close>

theorem python_compile_error_flag:
  assumes "grade_structured_python w code func_name cases tr = (Inr r, tr')"
  shows "\<exists>returncode out err.
           w tr (PythonHarness code func_name cases) = Completed returncode out err \<and>
           (rep_compile_error r \<longleftrightarrow> returncode \<noteq> 0) \<and>
           tr' = tr @ [PythonHarness code func_name cases]"
  using assms
  by (cases "w tr (PythonHarness code func_name cases)")
     (auto simp: grade_structured_python_def subprocess_run_def Let_def
           split: sum.splits prod.splits)

theorem python_compile_error_flag_witness:
  "grade_structured_python demo_world_import_error ''x = 1 // 0'' ''mirrorScore''
       [\<lparr>sc_args = [PStr ''abc''], sc_expected = PInt 1\<rparr>,
        \<lparr>sc_args = [PStr ''x''], sc_expected = PInt 2\<rparr>] [] =
     (Inr \<lparr>rep_passed = 0, rep_total = 2, rep_details = [], rep_compile_error = True\<rparr>,
      [PythonHarness ''x = 1 // 0'' ''mirrorScore''
         [\<lparr>sc_args = [PStr ''abc''], sc_expected = PInt 1\<rparr>,
          \<lparr>sc_args = [PStr ''x''], sc_expected = PInt 2\<rparr>]]) \<and>
   (\<exists>returncode out err.
      demo_world_import_error []
          (PythonHarness ''x = 1 // 0'' ''mirrorScore''
             [\<lparr>sc_args = [PStr ''abc''], sc_expected = PInt 1\<rparr>,
              \<lparr>sc_args = [PStr ''x''], sc_expected = PInt 2\<rparr>])
        = Completed returncode out err \<and>
      returncode \<noteq> 0)"
proof -
  have g: "grade_structured_python demo_world_import_error ''x = 1 // 0'' ''mirrorScore''
       [\<lparr>sc_args = [PStr ''abc''], sc_expected = PInt 1\<rparr>,
        \<lparr>sc_args = [PStr ''x''], sc_expected = PInt 2\<rparr>] [] =
     (Inr \<lparr>rep_passed = 0, rep_total = 2, rep_details = [], rep_compile_error = True\<rparr>,
      [PythonHarness ''x = 1 // 0'' ''mirrorScore''
         [\<lparr>sc_args = [PStr ''abc''], sc_expected = PInt 1\<rparr>,
          \<lparr>sc_args = [PStr ''x''], sc_expected = PInt 2\<rparr>]])"
    by (simp add: grade_structured_python_def subprocess_run_def demo_world_import_error_def
          scripted_def splitlines_def)
  from python_compile_error_flag[OF g] g show ?thesis
    by auto
qed

subsection \<open>Case extraction\<close>

lemma map_exn_Inr_iff: "map_exn f xs = Inr ys \<longleftrightarrow> list_all2 (\<lambda>x y. f x = Inr y) xs ys"
proof (induction xs arbitrary: ys)
  case Nil
  then show ?case by auto
next
  case (Cons x xs)
  show ?case
  proof (cases "f x")
    case (Inl e)
    then show ?thesis by (auto simp: list_all2_Cons1)
  next
    case (Inr y)
    then show ?thesis
      using Cons.IH by (cases "map_exn f xs") (auto simp: list_all2_Cons1)
  qed
qed

lemma map_exn_Inl_iff: "(\<exists>e. map_exn f xs = Inl e) \<longleftrightarrow> list_ex (\<lambda>x. \<exists>e. f x = Inl e) xs"
proof (induction xs)
  case Nil
  then show ?case by simp
next
  case (Cons x xs)
  then show ?case
    by (cases "f x"; cases "map_exn f xs") auto
qed

lemma and_then_Inr_iff: "and_then x f = Inr y \<longleftrightarrow> (\<exists>v. x = Inr v \<and> f v = Inr y)"
  by (cases x) auto

lemma and_then_Inl_iff:
  "and_then x f = Inl e \<longleftrightarrow> x = Inl e \<or> (\<exists>v. x = Inr v \<and> f v = Inl e)"
  by (cases x) auto

lemma structured_case_of_Inr_iff:
  "structured_case_of problem_id t = Inr c \<longleftrightarrow> parsed_as problem_id t c"
  by (cases "tc_input t"; cases "tc_output t")
     (auto simp: structured_case_of_def parsed_as_def subscript_def and_then_Inr_iff)

lemma structured_case_of_Inl_iff:
  "(\<exists>e. structured_case_of problem_id t = Inl e) \<longleftrightarrow> fails_to_parse problem_id t"
  by (cases "tc_input t"; cases "tc_output t")
     (auto simp: structured_case_of_def fails_to_parse_def subscript_def and_then_Inl_iff
           split: sum.splits)

text \<open>
  \<open>structured_cases_all_or_nothing\<close> (claim C7). Either some test of the problem
  fails to parse under the rule of the problem's id, and \<^verbatim>\<open>build_structured_cases\<close>
  returns \<^verbatim>\<open>None\<close>; or no test fails, and it returns a list with one case for each
  test, in the order of the tests, each case being what \<^verbatim>\<open>parse_case\<close> made of its
  test.
\<close>

theorem structured_cases_all_or_nothing:
  "(list_ex (fails_to_parse (pr_id problem)) (get_tests problem) \<and>
      build_structured_cases problem = None) \<or>
   (\<not> list_ex (fails_to_parse (pr_id problem)) (get_tests problem) \<and>
      (\<exists>cases. build_structured_cases problem = Some cases \<and>
               length cases = length (get_tests problem) \<and>
               list_all2 (parsed_as (pr_id problem)) (get_tests problem) cases))"
proof (cases "map_exn (structured_case_of (pr_id problem)) (get_tests problem)")
  case (Inl e)
  then have "list_ex (fails_to_parse (pr_id problem)) (get_tests problem)"
    using map_exn_Inl_iff[of "structured_case_of (pr_id problem)" "get_tests problem"]
    by (auto simp: structured_case_of_Inl_iff)
  with Inl show ?thesis
    by (simp add: build_structured_cases_def)
next
  case (Inr cases)
  then have all: "list_all2 (parsed_as (pr_id problem)) (get_tests problem) cases"
    by (simp add: map_exn_Inr_iff structured_case_of_Inr_iff)
  have "\<not> list_ex (fails_to_parse (pr_id problem)) (get_tests problem)"
    using Inr map_exn_Inl_iff[of "structured_case_of (pr_id problem)" "get_tests problem"]
    by (auto simp: structured_case_of_Inl_iff)
  with Inr all show ?thesis
    by (auto simp: build_structured_cases_def dest: list_all2_lengthD)
qed

theorem structured_cases_all_or_nothing_witness:
  "list_ex (fails_to_parse (pr_id demo_problem_unparsable)) (get_tests demo_problem_unparsable) \<and>
   build_structured_cases demo_problem_unparsable = None \<and>
   build_structured_cases demo_problem =
     Some [\<lparr>sc_args = [PStr ''abc''], sc_expected = PInt 1\<rparr>,
           \<lparr>sc_args = [PStr ''x''], sc_expected = PInt 2\<rparr>] \<and>
   list_all2 (parsed_as (pr_id demo_problem)) (get_tests demo_problem)
     [\<lparr>sc_args = [PStr ''abc''], sc_expected = PInt 1\<rparr>,
      \<lparr>sc_args = [PStr ''x''], sc_expected = PInt 2\<rparr>]"
proof -
  have bad: "list_ex (fails_to_parse (pr_id demo_problem_unparsable))
      (get_tests demo_problem_unparsable)"
    by code_simp
  have good: "build_structured_cases demo_problem =
     Some [\<lparr>sc_args = [PStr ''abc''], sc_expected = PInt 1\<rparr>,
           \<lparr>sc_args = [PStr ''x''], sc_expected = PInt 2\<rparr>]"
    by code_simp
  from structured_cases_all_or_nothing[of demo_problem_unparsable] bad
  have "build_structured_cases demo_problem_unparsable = None"
    by blast
  moreover from structured_cases_all_or_nothing[of demo_problem] good
  have "list_all2 (parsed_as (pr_id demo_problem)) (get_tests demo_problem)
     [\<lparr>sc_args = [PStr ''abc''], sc_expected = PInt 1\<rparr>,
      \<lparr>sc_args = [PStr ''x''], sc_expected = PInt 2\<rparr>]"
    by auto
  ultimately show ?thesis
    using bad good by (intro conjI)
qed


section \<open>Properties of the Java literals\<close>







text \<open>
  Inside a sequence a boolean is an integer for \<^verbatim>\<open>isinstance\<close> and is rendered by
  \<^verbatim>\<open>str\<close>, with a capital letter. \<^verbatim>\<open>parse_case\<close> builds no such sequence.
\<close>

lemma java_literal_boolean_sequence:
  "java_literal (PList [PBool True, PInt 1]) = ''Arrays.asList(True, 1)''"
  by (simp add: str_int_def)





section \<open>Shape of the report\<close>








lemma stdin_grading_well_formed:
  assumes "stdin_grading (Some run) language c problem tr = (Inr (GradeReport r), tr')"
  shows "well_formed r (get_tests problem)"
  using stdin_loop_details[OF stdin_grading_loop(1)[OF assms]] stdin_grading_loop(2)[OF assms]
  by (auto simp: well_formed_def)







section \<open>Fallback to the stdin path\<close>

lemma stdin_loop_raises:
  assumes "stdin_loop run c tests rs p cf tr = (Inl e, tr')"
  shows "\<exists>inp tra. run (Text c) (Text inp) tra = (Inl e, tr')"
  using assms
proof (induction tests arbitrary: rs p cf tr)
  case Nil
  then show ?case by simp
next
  case (Cons t ts)
  show ?case
  proof (cases cf)
    case True
    with Cons.prems show ?thesis
      by (simp add: stdin_loop_after_failure)
  next
    case False
    show ?thesis
    proof (cases "run (Text c) (Text (get_input t)) tr")
      case (Pair x tr1)
      show ?thesis
      proof (cases x)
        case (Inl e1)
        with Cons.prems False Pair show ?thesis
          by auto
      next
        case (Inr res)
        with Pair have r: "run (Text c) (Text (get_input t)) tr = (Inr res, tr1)"
          by simp
        from Cons.prems show ?thesis
          unfolding stdin_loop_run_step[where run=run and c=c and t=t and tr=tr, OF False r]
          by (rule Cons.IH)
      qed
    qed
  qed
qed

text \<open>
  The stdin path with a runner ends in one of two ways: with a well-formed report, or
  with an exception that an invocation of the runner raised.
\<close>

lemma stdin_grading_outcome:
  "(\<exists>r tr'. stdin_grading (Some run) language c problem tr = (Inr (GradeReport r), tr') \<and>
            well_formed r (get_tests problem)) \<or>
   (\<exists>e tr' inp tra. stdin_grading (Some run) language c problem tr = (Inl e, tr') \<and>
                    run (Text c) (Text inp) tra = (Inl e, tr'))"
proof (cases "stdin_loop run c (get_tests problem) [] 0 False tr")
  case (Pair x tr')
  show ?thesis
  proof (cases x)
    case (Inl e)
    with Pair stdin_loop_raises[of run c "get_tests problem" "[]" 0 False tr e tr']
    show ?thesis
      by (auto simp: stdin_grading_def Let_def)
  next
    case (Inr v)
    with Pair obtain r where
      g: "stdin_grading (Some run) language c problem tr = (Inr (GradeReport r), tr')"
      by (cases v) (auto simp: stdin_grading_def Let_def)
    with stdin_grading_well_formed[OF g] show ?thesis
      by blast
  qed
qed

lemma registered_runner_raises:
  assumes "RUNNERS w java_run lang_key = Some run" and "lang_key \<noteq> ''java''"
    and "run (Text c) (Text inp) tra = (Inl e, tr')"
  shows "e = UnicodeDecodeError"
proof -
  from assms(1,2) have "run = python_run w \<or> run = cpp_run w"
    by (auto simp: RUNNERS_def split: if_splits)
  with assms(3) python_run_raises[of w c inp tra] cpp_run_raises[of w c inp tra]
  show ?thesis by auto
qed

text \<open>
  \<open>structured_fault_falls_back\<close> (claim C2, as amended). Take a submission in a
  registered language whose structured path gives no report: it was not entered
  (\<open>tr1\<close> is the starting trace then), as after a failed extraction, or it raised an
  exception \<open>e\<close>, leaving the trace \<open>tr1\<close>. Then \<^verbatim>\<open>grade_submission\<close> returns what
  the stdin path returns from \<open>tr1\<close>, whatever \<open>e\<close> was. That is a well-formed
  report, unless an invocation of the runner raises: then this exception of the runner
  comes out, which for the Python and the C++ runner is a \<^verbatim>\<open>UnicodeDecodeError\<close>.
\<close>

theorem structured_fault_falls_back:
  fixes w :: world and language code :: string
  defines "lang_key \<equiv> lower (strip language)"
  defines "prepared \<equiv> apply_language_boilerplate lang_key code"
  assumes supported: "lang_key \<in> set [''python'', ''py'', ''java'', ''c++'', ''cpp'', ''c'']"
    and fault: "structured_attempt w lang_key prepared problem tr = None \<and> tr1 = tr \<or>
                structured_attempt w lang_key prepared problem tr = Some (Inl e, tr1)"
  shows "\<exists>run.
           RUNNERS w java_run lang_key = Some run \<and>
           grade_submission w java_run language code problem tr =
             stdin_grading (Some run) language prepared problem tr1 \<and>
           ((\<exists>r tr'. grade_submission w java_run language code problem tr
                        = (Inr (GradeReport r), tr') \<and>
                     well_formed r (get_tests problem)) \<or>
            (\<exists>e' tr' inp tra.
               grade_submission w java_run language code problem tr = (Inl e', tr') \<and>
               run (Text prepared) (Text inp) tra = (Inl e', tr') \<and>
               (lang_key \<noteq> ''java'' \<longrightarrow> e' = UnicodeDecodeError)))"
proof -
  from supported obtain run where run: "RUNNERS w java_run lang_key = Some run"
    by (auto simp: RUNNERS_def)
  from fault have g: "grade_submission w java_run language code problem tr =
      stdin_grading (Some run) language prepared problem tr1"
    unfolding run[symmetric]
    by (auto simp: grade_submission_def Let_def lang_key_def prepared_def)
  from stdin_grading_outcome[of run language prepared problem tr1]
  have "(\<exists>r tr'. grade_submission w java_run language code problem tr
                        = (Inr (GradeReport r), tr') \<and>
                     well_formed r (get_tests problem)) \<or>
            (\<exists>e' tr' inp tra.
               grade_submission w java_run language code problem tr = (Inl e', tr') \<and>
               run (Text prepared) (Text inp) tra = (Inl e', tr') \<and>
               (lang_key \<noteq> ''java'' \<longrightarrow> e' = UnicodeDecodeError))"
    unfolding g using registered_runner_raises[OF run]
    by (elim disjE exE conjE) blast+
  with run g show ?thesis
    by blast
qed


theorem structured_fault_falls_back_witness:
  "lower (strip ''python'') \<in> set [''python'', ''py'', ''java'', ''c++'', ''cpp'', ''c''] \<and>
   structured_attempt demo_world_answer (lower (strip ''python''))
       (apply_language_boilerplate (lower (strip ''python'')) demo_py_answer)
       demo_problem_unsigned []
     = Some (Inl ValueError, []) \<and>
   (\<exists>r tr'.
      grade_submission demo_world_answer idle_runner ''python'' demo_py_answer
          demo_problem_unsigned []
        = (Inr (GradeReport r), tr') \<and>
      well_formed r (get_tests demo_problem_unsigned) \<and> rep_passed r = 2)"
proof -
  let ?r = "\<lparr>rep_passed = 2, rep_total = 2,
         rep_details =
           [\<lparr>det_input = Some ''abc'', det_expected = Some ''1'',
             det_output = Some (''1'' @ [CHR 0x0A]),
             det_error = [], det_passed = True,
             det_compile_error = Some False, det_timeout = Some False\<rparr>,
            \<lparr>det_input = Some ''x'', det_expected = Some ''2'',
             det_output = Some (''2'' @ [CHR 0x0A]),
             det_error = [], det_passed = True,
             det_compile_error = Some False, det_timeout = Some False\<rparr>],
         rep_compile_error = False\<rparr>"
  have h1: "lower (strip ''python'')
      \<in> set [''python'', ''py'', ''java'', ''c++'', ''cpp'', ''c'']"
    by (simp add: lower_def lower_char_def lower_table_def strip_def isspace_def)
  have h2: "structured_attempt demo_world_answer (lower (strip ''python''))
       (apply_language_boilerplate (lower (strip ''python'')) demo_py_answer)
       demo_problem_unsigned []
     = Some (Inl ValueError, [])"
    by code_simp
  have g: "grade_submission demo_world_answer idle_runner ''python'' demo_py_answer
          demo_problem_unsigned []
        = (Inr (GradeReport ?r), [Python3 demo_py_answer ''abc'', Python3 demo_py_answer ''x''])"
    by code_simp
  from structured_fault_falls_back[where w=demo_world_answer and language="''python''"
      and code=demo_py_answer and problem=demo_problem_unsigned and tr="[]" and ?tr1.0="[]"
      and e=ValueError and java_run=idle_runner, OF h1 disjI2, OF h2]
  have "\<exists>r tr'. grade_submission demo_world_answer idle_runner ''python'' demo_py_answer
          demo_problem_unsigned [] = (Inr (GradeReport r), tr') \<and>
        well_formed r (get_tests demo_problem_unsigned)"
    unfolding g by auto
  then have "\<exists>r tr'.
      grade_submission demo_world_answer idle_runner ''python'' demo_py_answer
          demo_problem_unsigned []
        = (Inr (GradeReport r), tr') \<and>
      well_formed r (get_tests demo_problem_unsigned) \<and> rep_passed r = 2"
    unfolding g by auto
  with h1 h2 show ?thesis
    by (intro conjI)
qed

text \<open>
  Claim C2 as stated fails where the stdin path raises itself. The problem below has
  no method signatures, so the structured path raises \<^verbatim>\<open>ValueError\<close>, which is
  dropped; the first run of the stdin path then writes a byte that is no UTF-8, and
  \<^verbatim>\<open>grade_submission\<close> raises \<^verbatim>\<open>UnicodeDecodeError\<close> instead of returning a report.
\<close>

theorem fallback_raises_on_undecodable_output:
  "structured_attempt demo_world_garbled ''python'' demo_py_garbling demo_problem_unsigned []
     = Some (Inl ValueError, []) \<and>
   grade_submission demo_world_garbled idle_runner ''python'' demo_py_garbling
       demo_problem_unsigned []
     = (Inl UnicodeDecodeError, [Python3 demo_py_garbling ''abc''])"
  by code_simp

section \<open>Verdicts of the stdin path\<close>

text \<open>
  \<open>stdin_passed_iff\<close> (claim C3). Take a grading call that goes the stdin path,
  the structured path having given no report, and returns a report, and take the test
  at position \<open>i\<close>. When the loop reaches it, having gone through the \<open>i\<close> tests
  before it, the compile-failure flag is \<open>compile_failure\<close> and the trace is
  \<open>tr_i\<close>. The detail at position \<open>i\<close> has \<open>passed\<close> true if and only if the
  test is run (no compile failure before it), the runner, started on the test's input,
  reports success, and its output, trimmed, equals the expected output, trimmed.
\<close>

theorem stdin_passed_iff:
  fixes w :: world and language code :: string
  defines "lang_key \<equiv> lower (strip language)"
  defines "prepared \<equiv> apply_language_boilerplate lang_key code"
  assumes path: "structured_attempt w lang_key prepared problem tr = None \<and> tr1 = tr \<or>
                 structured_attempt w lang_key prepared problem tr = Some (Inl e, tr1)"
    and run: "RUNNERS w java_run lang_key = Some run"
    and g: "grade_submission w java_run language code problem tr = (Inr (GradeReport r), tr')"
    and i: "i < length (get_tests problem)"
  shows "\<exists>results passed compile_failure tr_i.
           stdin_loop run prepared (take i (get_tests problem)) [] 0 False tr1
             = (Inr (results, passed, compile_failure), tr_i) \<and>
           (det_passed (rep_details r ! i) \<longleftrightarrow>
              \<not> compile_failure \<and>
              (\<exists>res tr2.
                 run (Text prepared) (Text (get_input (get_tests problem ! i))) tr_i = (Inr res, tr2) \<and>
                 res_success res \<and>
                 strip (res_output res) = strip (get_output (get_tests problem ! i))))"
proof -
  from path have "grade_submission w java_run language code problem tr =
      stdin_grading (RUNNERS w java_run lang_key) language prepared problem tr1"
    unfolding lang_key_def prepared_def by (rule grade_submission_without_report)
  with g run have "stdin_grading (Some run) language prepared problem tr1
      = (Inr (GradeReport r), tr')"
    by simp
  from stdin_grading_passed_iff[OF this i] show ?thesis .
qed

theorem stdin_passed_iff_witness:
  "structured_attempt demo_world_py (lower (strip ''py''))
       (apply_language_boilerplate (lower (strip ''py'')) demo_py_one) demo_problem [] = None \<and>
   RUNNERS demo_world_py idle_runner (lower (strip ''py'')) = Some (python_run demo_world_py) \<and>
   (1::nat) < length (get_tests demo_problem) \<and>
   (\<exists>r tr'.
      grade_submission demo_world_py idle_runner ''py'' demo_py_one demo_problem []
        = (Inr (GradeReport r), tr') \<and>
      (\<exists>results passed compile_failure tr_i.
         stdin_loop (python_run demo_world_py)
             (apply_language_boilerplate (lower (strip ''py'')) demo_py_one)
             (take 1 (get_tests demo_problem)) [] 0 False []
           = (Inr (results, passed, compile_failure), tr_i) \<and>
         (det_passed (rep_details r ! 1) \<longleftrightarrow>
            \<not> compile_failure \<and>
            (\<exists>res tr2.
               python_run demo_world_py
                   (Text (apply_language_boilerplate (lower (strip ''py'')) demo_py_one))
                   (Text (get_input (get_tests demo_problem ! 1))) tr_i
                 = (Inr res, tr2) \<and>
               res_success res \<and>
               strip (res_output res) = strip (get_output (get_tests demo_problem ! 1))))) \<and>
      det_passed (rep_details r ! 0) \<and> \<not> det_passed (rep_details r ! 1))"
proof -
  let ?r = "\<lparr>rep_passed = 1, rep_total = 2,
     rep_details =
       [\<lparr>det_input = Some ''abc'', det_expected = Some ''1'',
         det_output = Some (''1'' @ [CHR 0x0A]), det_error = [], det_passed = True,
         det_compile_error = Some False, det_timeout = Some False\<rparr>,
        \<lparr>det_input = Some ''x'', det_expected = Some ''2'',
         det_output = Some (''1'' @ [CHR 0x0A]), det_error = [], det_passed = False,
         det_compile_error = Some False, det_timeout = Some False\<rparr>],
     rep_compile_error = False\<rparr>"
  let ?t = "[Python3 demo_py_one ''abc'', Python3 demo_py_one ''x'']"
  have h1: "structured_attempt demo_world_py (lower (strip ''py''))
       (apply_language_boilerplate (lower (strip ''py'')) demo_py_one) demo_problem [] = None"
    by code_simp
  have h2: "RUNNERS demo_world_py idle_runner (lower (strip ''py''))
      = Some (python_run demo_world_py)"
    by (simp add: RUNNERS_def lower_def lower_char_def lower_table_def strip_def isspace_def)
  have g: "grade_submission demo_world_py idle_runner ''py'' demo_py_one demo_problem []
      = (Inr (GradeReport ?r), ?t)"
    by code_simp
  have i: "(1::nat) < length (get_tests demo_problem)"
    by (simp add: get_tests_def demo_problem_def demo_tests_def)
  have p: "det_passed (rep_details ?r ! 0) \<and> \<not> det_passed (rep_details ?r ! 1)"
    by simp
  from h1 have path: "structured_attempt demo_world_py (lower (strip ''py''))
       (apply_language_boilerplate (lower (strip ''py'')) demo_py_one) demo_problem [] = None
     \<and> [] = ([] :: trace) \<or>
     structured_attempt demo_world_py (lower (strip ''py''))
       (apply_language_boilerplate (lower (strip ''py'')) demo_py_one) demo_problem []
     = Some (Inl ValueError, [])"
    by simp
  from stdin_passed_iff[where w=demo_world_py and language="''py''" and code=demo_py_one
      and problem=demo_problem and tr="[]" and ?tr1.0="[]" and e=ValueError
      and java_run=idle_runner and run="python_run demo_world_py" and r="?r" and tr'="?t"
      and i=1, OF path h2 g i]
  have "\<exists>results passed compile_failure tr_i.
         stdin_loop (python_run demo_world_py)
             (apply_language_boilerplate (lower (strip ''py'')) demo_py_one)
             (take 1 (get_tests demo_problem)) [] 0 False []
           = (Inr (results, passed, compile_failure), tr_i) \<and>
         (det_passed (rep_details ?r ! 1) \<longleftrightarrow>
            \<not> compile_failure \<and>
            (\<exists>res tr2.
               python_run demo_world_py
                   (Text (apply_language_boilerplate (lower (strip ''py'')) demo_py_one))
                   (Text (get_input (get_tests demo_problem ! 1))) tr_i
                 = (Inr res, tr2) \<and>
               res_success res \<and>
               strip (res_output res) = strip (get_output (get_tests demo_problem ! 1))))" .
  with g p have "\<exists>r tr'.
      grade_submission demo_world_py idle_runner ''py'' demo_py_one demo_problem []
        = (Inr (GradeReport r), tr') \<and>
      (\<exists>results passed compile_failure tr_i.
         stdin_loop (python_run demo_world_py)
             (apply_language_boilerplate (lower (strip ''py'')) demo_py_one)
             (take 1 (get_tests demo_problem)) [] 0 False []
           = (Inr (results, passed, compile_failure), tr_i) \<and>
         (det_passed (rep_details r ! 1) \<longleftrightarrow>
            \<not> compile_failure \<and>
            (\<exists>res tr2.
               python_run demo_world_py
                   (Text (apply_language_boilerplate (lower (strip ''py'')) demo_py_one))
                   (Text (get_input (get_tests demo_problem ! 1))) tr_i
                 = (Inr res, tr2) \<and>
               res_success res \<and>
               strip (res_output res) = strip (get_output (get_tests demo_problem ! 1))))) \<and>
      det_passed (rep_details r ! 0) \<and> \<not> det_passed (rep_details r ! 1)"
    by blast
  with h1 h2 i show ?thesis
    by (intro conjI)
qed

end
